theory Spec2Isabelle
  imports Main
begin

section \<open>Compression levels and the codec pools\<close>

text \<open>
  The level constants come from the compression library the middleware imports
  (\<^verbatim>\<open>klauspost/compress\<close>, package \<^verbatim>\<open>gzip\<close> and package \<^verbatim>\<open>flate\<close>); the source repeats
  the one that matters in a comment (\<^verbatim>\<open>gzip.DefaultCompression == -1\<close>). Go's \<^verbatim>\<open>int\<close> is
  modelled as \<^typ>\<open>int\<close>: every level that reaches the index functions has been clamped
  into \<open>-1..9\<close>, so no subtraction can wrap.
\<close>

definition gzip_NoCompression :: int where "gzip_NoCompression = 0"
definition gzip_BestSpeed :: int where "gzip_BestSpeed = 1"
definition gzip_BestCompression :: int where "gzip_BestCompression = 9"
definition gzip_DefaultCompression :: int where "gzip_DefaultCompression = - 1"

definition flate_BestSpeed :: int where "flate_BestSpeed = 1"
definition flate_BestCompression :: int where "flate_BestCompression = 9"
definition flate_DefaultCompression :: int where "flate_DefaultCompression = - 1"

text \<open>
  \<^verbatim>\<open>var gzipWriterPools [gzip.BestCompression - gzip.BestSpeed + 2]*sync.Pool\<close>: only the
  length of the arrays matters here, an index outside \<open>0..<len\<close> is a run-time panic.
\<close>

definition gzipWriterPools_len :: int where
  "gzipWriterPools_len = gzip_BestCompression - gzip_BestSpeed + 2"

definition flateWriterPools_len :: int where
  "flateWriterPools_len = flate_BestCompression - flate_BestSpeed + 2"

definition gzipPoolIndex :: "int \<Rightarrow> int" where
  "gzipPoolIndex level =
     (if level = gzip_DefaultCompression then gzip_BestCompression - gzip_BestSpeed + 1
      else level - gzip_BestSpeed)"

definition flatePoolIndex :: "int \<Rightarrow> int" where
  "flatePoolIndex level =
     (if level = flate_DefaultCompression then flate_BestCompression - flate_BestSpeed + 1
      else level - flate_BestSpeed)"

section \<open>Strings\<close>

text \<open>
  A Go string is a sequence of bytes, here a \<^typ>\<open>string\<close>. The functions of package
  \<^verbatim>\<open>strings\<close> that the middleware calls are written out on bytes.

  \<^verbatim>\<open>strings.Split(s, ",")\<close> cuts at every separator and always returns at least one field
  (the empty string gives one empty field).
\<close>

fun Split :: "string \<Rightarrow> char \<Rightarrow> string list" where
  "Split [] sep = [[]]"
| "Split (c # cs) sep =
     (if c = sep then [] # Split cs sep
      else (case Split cs sep of t # ts \<Rightarrow> (c # t) # ts | [] \<Rightarrow> [[c]]))"

text \<open>
  \<^verbatim>\<open>strings.TrimSpace\<close> removes leading and trailing white space as \<^verbatim>\<open>unicode.IsSpace\<close>
  defines it: the six ASCII characters tab, line feed, vertical tab, form feed, carriage
  return and space, and the code points U+0085, U+00A0, U+1680, U+2000 to U+200A, U+2028,
  U+2029, U+202F, U+205F and U+3000, which appear in the string as their two-byte and
  three-byte UTF-8 encodings. A byte that starts no such encoding stops the trimming.
\<close>

definition asciiSpace :: "char \<Rightarrow> bool" where
  "asciiSpace c \<longleftrightarrow>
     c = CHR 0x09 \<or> c = CHR 0x0A \<or> c = CHR 0x0B \<or> c = CHR 0x0C \<or> c = CHR 0x0D \<or> c = CHR 0x20"

definition space2 :: "char \<Rightarrow> char \<Rightarrow> bool" where
  "space2 c1 c2 \<longleftrightarrow> c1 = CHR 0xC2 \<and> (c2 = CHR 0x85 \<or> c2 = CHR 0xA0)"

definition space3 :: "char \<Rightarrow> char \<Rightarrow> char \<Rightarrow> bool" where
  "space3 c1 c2 c3 \<longleftrightarrow>
     (c1 = CHR 0xE1 \<and> c2 = CHR 0x9A \<and> c3 = CHR 0x80)
     \<or> (c1 = CHR 0xE2 \<and> c2 = CHR 0x80 \<and>
          (c3 \<in> set [CHR 0x80, CHR 0x81, CHR 0x82, CHR 0x83, CHR 0x84, CHR 0x85, CHR 0x86,
                      CHR 0x87, CHR 0x88, CHR 0x89, CHR 0x8A, CHR 0xA8, CHR 0xA9, CHR 0xAF]))
     \<or> (c1 = CHR 0xE2 \<and> c2 = CHR 0x81 \<and> c3 = CHR 0x9F)
     \<or> (c1 = CHR 0xE3 \<and> c2 = CHR 0x80 \<and> c3 = CHR 0x80)"

fun TrimLeft :: "string \<Rightarrow> string" where
  "TrimLeft (c1 # c2 # c3 # cs) =
     (if asciiSpace c1 then TrimLeft (c2 # c3 # cs)
      else if space2 c1 c2 then TrimLeft (c3 # cs)
      else if space3 c1 c2 c3 then TrimLeft cs
      else c1 # c2 # c3 # cs)"
| "TrimLeft [c1, c2] =
     (if asciiSpace c1 then TrimLeft [c2] else if space2 c1 c2 then [] else [c1, c2])"
| "TrimLeft [c1] = (if asciiSpace c1 then [] else [c1])"
| "TrimLeft [] = []"

text \<open>The same from the end, on the reversed string: \<open>c1\<close> is the last byte.\<close>

fun TrimLeft_rev :: "string \<Rightarrow> string" where
  "TrimLeft_rev (c1 # c2 # c3 # cs) =
     (if asciiSpace c1 then TrimLeft_rev (c2 # c3 # cs)
      else if space2 c2 c1 then TrimLeft_rev (c3 # cs)
      else if space3 c3 c2 c1 then TrimLeft_rev cs
      else c1 # c2 # c3 # cs)"
| "TrimLeft_rev [c1, c2] =
     (if asciiSpace c1 then TrimLeft_rev [c2] else if space2 c2 c1 then [] else [c1, c2])"
| "TrimLeft_rev [c1] = (if asciiSpace c1 then [] else [c1])"
| "TrimLeft_rev [] = []"

definition TrimRight :: "string \<Rightarrow> string" where
  "TrimRight s = rev (TrimLeft_rev (rev s))"

definition TrimSpace :: "string \<Rightarrow> string" where
  "TrimSpace s = TrimRight (TrimLeft s)"

text \<open>\<^verbatim>\<open>strings.Contains(s, substr)\<close>: \<open>substr\<close> occurs in \<open>s\<close> as a contiguous run of bytes.\<close>

fun HasPrefix :: "string \<Rightarrow> string \<Rightarrow> bool" where
  "HasPrefix s [] = True"
| "HasPrefix [] (p # ps) = False"
| "HasPrefix (c # cs) (p # ps) = (c = p \<and> HasPrefix cs ps)"

fun Contains :: "string \<Rightarrow> string \<Rightarrow> bool" where
  "Contains [] substr = (substr = [])"
| "Contains (c # cs) substr = (HasPrefix (c # cs) substr \<or> Contains cs substr)"

section \<open>Headers\<close>

text \<open>
  \<^verbatim>\<open>http.Header\<close> is a \<^verbatim>\<open>map[string][]string\<close>. Its methods canonicalise the key they are
  given; every key the middleware passes (\<^verbatim>\<open>Content-Type\<close>, \<^verbatim>\<open>Content-Length\<close>,
  \<^verbatim>\<open>Content-Encoding\<close>, \<^verbatim>\<open>Transfer-Encoding\<close>, \<^verbatim>\<open>Vary\<close>, \<^verbatim>\<open>Accept-Encoding\<close>) is canonical
  already, so the methods below work on the key as given, and a key in a handler call
  stands for its canonical form.
\<close>

type_synonym header = "string \<rightharpoonup> string list"

definition Header_Get :: "header \<Rightarrow> string \<Rightarrow> string" where
  "Header_Get h key = (case h key of None \<Rightarrow> [] | Some [] \<Rightarrow> [] | Some (v # _) \<Rightarrow> v)"

definition Header_Set :: "header \<Rightarrow> string \<Rightarrow> string \<Rightarrow> header" where
  "Header_Set h key v = h(key \<mapsto> [v])"

definition Header_Add :: "header \<Rightarrow> string \<Rightarrow> string \<Rightarrow> header" where
  "Header_Add h key v = h(key \<mapsto> (case h key of None \<Rightarrow> [] | Some vs \<Rightarrow> vs) @ [v])"

definition Header_Del :: "header \<Rightarrow> string \<Rightarrow> header" where
  "Header_Del h key = h(key := None)"

definition deflate :: string where "deflate = ''deflate''"
definition gzipa :: string where "gzipa = ''gzip''"

section \<open>The response writer, the codec and the handler\<close>

text \<open>
  The original writer \<^verbatim>\<open>rrw\<close> is an \<^verbatim>\<open>http.ResponseWriter\<close> supplied by the server. It is
  modelled by what it is given: its header map, and the list of calls it receives, each
  with the header map as it stands at the call (what a commit at that moment would send).
  The codec (\<^verbatim>\<open>gzip.Writer\<close> or \<^verbatim>\<open>flate.Writer\<close>) belongs to the compression library; it
  is modelled by the sink its last \<^verbatim>\<open>Reset\<close> gave it and the chunks written into it.
  The bytes a codec emits into its sink are its own business and are not part of \<open>raw\<close>.
\<close>

datatype encoding = Gzip | Deflate

datatype sink = Writer | Discard

datatype raw_call =
    RawWriteHeader int header
  | RawWrite string header
  | RawPush string "nat option"

text \<open>What the middleware itself does to the pools and to \<^verbatim>\<open>Content-Encoding\<close>, in order.\<close>

datatype event =
    SetContentEncoding string
  | PoolGet encoding int
  | CodecClose encoding
  | PoolPut encoding int

datatype go_panic = IndexOutOfRange int

text \<open>
  \<^verbatim>\<open>http.PushOptions\<close>; a nil \<^verbatim>\<open>Header\<close> map is \<open>None\<close>. Push options are passed by pointer,
  so they live in a store: a list of cells, an address is an index, \<^verbatim>\<open>nil\<close> is \<open>None\<close>, and
  allocation appends a cell.
\<close>

record PushOptions =
  Method :: string
  Header :: "header option"

record Request =
  req_Header :: header

record conn =
  hdr :: header
  raw :: "raw_call list"
  hooks :: "encoding option"
  isStream :: bool
  codec_sink :: "sink option"
  codec_in :: "string list"
  deferred :: "(encoding \<times> int) list"
  events :: "event list"
  heap :: "PushOptions list"

definition new_conn :: "header \<Rightarrow> PushOptions list \<Rightarrow> conn" where
  "new_conn h mem =
     \<lparr>hdr = h, raw = [], hooks = None, isStream = False, codec_sink = None, codec_in = [],
      deferred = [], events = [], heap = mem\<rparr>"

text \<open>
  A handler is the sequence of calls it makes on the writer it is given. \<^verbatim>\<open>w.Header()\<close> is
  not hooked, so header operations reach the one header map whichever writer is used.
  The calls listed are the header operations and the three methods the middleware hooks;
  what else a writer may offer (\<^verbatim>\<open>Flush\<close>, \<^verbatim>\<open>Hijack\<close>, \<^verbatim>\<open>ReadFrom\<close>) passes through the
  wrapper untouched and is left out. The values \<^verbatim>\<open>Write\<close> returns come from the original
  writer or from the codec and are not modelled.
\<close>

datatype call =
    HeaderSet string string
  | HeaderAdd string string
  | HeaderDel string
  | WriteHeader int
  | Write string
  | Push string "nat option"

text \<open>A call on the original, undecorated writer.\<close>

fun direct_call :: "call \<Rightarrow> conn \<Rightarrow> conn" where
  "direct_call (HeaderSet k v) c = c\<lparr>hdr := Header_Set (hdr c) k v\<rparr>"
| "direct_call (HeaderAdd k v) c = c\<lparr>hdr := Header_Add (hdr c) k v\<rparr>"
| "direct_call (HeaderDel k) c = c\<lparr>hdr := Header_Del (hdr c) k\<rparr>"
| "direct_call (WriteHeader code) c = c\<lparr>raw := raw c @ [RawWriteHeader code (hdr c)]\<rparr>"
| "direct_call (Write b) c = c\<lparr>raw := raw c @ [RawWrite b (hdr c)]\<rparr>"
| "direct_call (Push target opts) c = c\<lparr>raw := raw c @ [RawPush target opts]\<rparr>"

section \<open>The hooks installed by CompressHandlerLevel\<close>

text \<open>
  The gzip branch and the deflate branch install the same \<^verbatim>\<open>WriteHeader\<close> and \<^verbatim>\<open>Write\<close>
  closures, up to the name of the codec variable (\<^verbatim>\<open>gzw\<close>, \<^verbatim>\<open>fw\<close>); one definition serves
  both. \<^verbatim>\<open>http.DetectContentType\<close> is the standard library's sniffer, a parameter here.
\<close>

definition WriteHeader_hook :: "int \<Rightarrow> conn \<Rightarrow> conn" where
  "WriteHeader_hook code c =
     (let c1 = c\<lparr>hdr := Header_Del (hdr c) ''Content-Length''\<rparr>
      in c1\<lparr>raw := raw c1 @ [RawWriteHeader code (hdr c1)]\<rparr>)"

definition Write_hook :: "(string \<Rightarrow> string) \<Rightarrow> string \<Rightarrow> conn \<Rightarrow> conn" where
  "Write_hook DetectContentType b c =
     (let h = (if Header_Get (hdr c) ''Content-Type'' = ''''
               then Header_Set (hdr c) ''Content-Type'' (DetectContentType b)
               else hdr c)
      in if isStream c
            \<or> Contains (Header_Get h ''Content-Type'') ''text/event-stream''
            \<or> Header_Get h ''Transfer-Encoding'' = ''chunked''
         then (let h' = Header_Del (Header_Del h ''Content-Encoding'') ''Vary''
               in c\<lparr>isStream := True, codec_sink := Some Discard, hdr := h',
                    raw := raw c @ [RawWrite b h']\<rparr>)
         else c\<lparr>hdr := Header_Del h ''Content-Length'', codec_in := codec_in c @ [b]\<rparr>)"

text \<open>
  The \<^verbatim>\<open>Push\<close> hook of the deflate branch. \<open>Push_body\<close> gives the store and the value of the
  local variable \<^verbatim>\<open>opts\<close> when the closure returns; the closure itself returns only the
  error, which is \<^verbatim>\<open>nil\<close> on every path, and it never calls the push function it wraps.
  A Go pointer never dangles; at an address outside the store the model changes nothing.
\<close>

definition gzipOnly :: header where
  "gzipOnly = [''Accept-Encoding'' \<mapsto> [''gzip'']]"

definition Push_body :: "PushOptions list \<Rightarrow> nat option \<Rightarrow> PushOptions list \<times> nat option" where
  "Push_body mem opts =
     (case opts of
        None \<Rightarrow> (mem @ [\<lparr>Method = '''', Header = Some gzipOnly\<rparr>], Some (length mem))
      | Some p \<Rightarrow>
          if length mem \<le> p then (mem, opts)
          else (case Header (mem ! p) of
                  None \<Rightarrow> (mem[p := (mem ! p)\<lparr>Header := Some gzipOnly\<rparr>], opts)
                | Some h \<Rightarrow>
                    if Header_Get h ''Accept-Encoding'' = ''''
                    then (mem[p := (mem ! p)\<lparr>Header := Some (Header_Add h ''Accept-Encoding'' ''gzip'')\<rparr>],
                          opts)
                    else (mem, opts)))"

definition Push_hook :: "string \<Rightarrow> nat option \<Rightarrow> conn \<Rightarrow> string option \<times> conn" where
  "Push_hook target opts c = (None, c\<lparr>heap := fst (Push_body (heap c) opts)\<rparr>)"

text \<open>A call on the decorated writer: hooked operations run the hook, the others pass through.\<close>

fun hooked_call :: "(string \<Rightarrow> string) \<Rightarrow> encoding \<Rightarrow> call \<Rightarrow> conn \<Rightarrow> conn" where
  "hooked_call D enc (WriteHeader code) c = WriteHeader_hook code c"
| "hooked_call D enc (Write b) c = Write_hook D b c"
| "hooked_call D Deflate (Push target opts) c = snd (Push_hook target opts c)"
| "hooked_call D enc cl c = direct_call cl c"

definition do_call :: "(string \<Rightarrow> string) \<Rightarrow> call \<Rightarrow> conn \<Rightarrow> conn" where
  "do_call D cl c = (case hooks c of None \<Rightarrow> direct_call cl c | Some enc \<Rightarrow> hooked_call D enc cl c)"

fun ServeHTTP :: "(string \<Rightarrow> string) \<Rightarrow> call list \<Rightarrow> conn \<Rightarrow> conn" where
  "ServeHTTP D [] c = c"
| "ServeHTTP D (cl # cls) c = ServeHTTP D cls (do_call D cl c)"

section \<open>CompressHandlerLevel\<close>

text \<open>
  The two branches of the \<^verbatim>\<open>switch\<close>. Each sets the response headers, indexes its pool
  array (a run-time panic when the index is outside the array), takes a codec, resets it
  onto the writer, registers the deferred close-and-put, and wraps the writer.
\<close>

definition gzip_branch :: "int \<Rightarrow> conn \<Rightarrow> go_panic \<times> conn + conn" where
  "gzip_branch level c =
     (let c1 = c\<lparr>hdr := Header_Add (Header_Set (hdr c) ''Content-Encoding'' gzipa) ''Vary'' ''Accept-Encoding'',
                 events := events c @ [SetContentEncoding gzipa]\<rparr>;
          index = gzipPoolIndex level
      in if index < 0 \<or> gzipWriterPools_len \<le> index then Inl (IndexOutOfRange index, c1)
         else Inr (c1\<lparr>events := events c1 @ [PoolGet Gzip index],
                      codec_sink := Some Writer,
                      deferred := (Gzip, index) # deferred c1,
                      isStream := False,
                      hooks := Some Gzip\<rparr>))"

definition flate_branch :: "int \<Rightarrow> conn \<Rightarrow> go_panic \<times> conn + conn" where
  "flate_branch level c =
     (let c1 = c\<lparr>hdr := Header_Add (Header_Set (hdr c) ''Content-Encoding'' deflate) ''Vary'' ''Accept-Encoding'',
                 events := events c @ [SetContentEncoding deflate]\<rparr>;
          index = flatePoolIndex level
      in if index < 0 \<or> flateWriterPools_len \<le> index then Inl (IndexOutOfRange index, c1)
         else Inr (c1\<lparr>events := events c1 @ [PoolGet Deflate index],
                      codec_sink := Some Writer,
                      deferred := (Deflate, index) # deferred c1,
                      isStream := False,
                      hooks := Some Deflate\<rparr>))"

text \<open>
  The loop labelled \<^verbatim>\<open>L\<close> over the fields of \<^verbatim>\<open>Accept-Encoding\<close>: both cases of the switch
  end in \<^verbatim>\<open>break L\<close>, any other field continues with the next one.
\<close>

fun loop_L :: "int \<Rightarrow> string list \<Rightarrow> conn \<Rightarrow> go_panic \<times> conn + conn" where
  "loop_L level [] c = Inr c"
| "loop_L level (enc # rest) c =
     (if TrimSpace enc = gzipa then gzip_branch level c
      else if TrimSpace enc = deflate then flate_branch level c
      else loop_L level rest c)"

text \<open>The deferred functions run last in, first out, when the handler function returns.\<close>

fun run_deferred :: "(encoding \<times> int) list \<Rightarrow> conn \<Rightarrow> conn" where
  "run_deferred [] c = c"
| "run_deferred ((enc, index) # ds) c =
     run_deferred ds (c\<lparr>events := events c @ [CodecClose enc, PoolPut enc index]\<rparr>)"

definition CompressHandlerLevel ::
  "(string \<Rightarrow> string) \<Rightarrow> call list \<Rightarrow> int \<Rightarrow> Request \<Rightarrow> conn \<Rightarrow> go_panic \<times> conn + conn" where
  "CompressHandlerLevel D h level0 r w =
     (let level = (if level0 < gzip_DefaultCompression \<or> level0 > gzip_BestCompression
                   then gzip_DefaultCompression else level0)
      in case loop_L level (Split (Header_Get (req_Header r) ''Accept-Encoding'') CHR '','') w of
           Inl p \<Rightarrow> Inl p
         | Inr w' \<Rightarrow> (let c = ServeHTTP D h w' in Inr (run_deferred (deferred c) (c\<lparr>deferred := []\<rparr>))))"

definition CompressHandler ::
  "(string \<Rightarrow> string) \<Rightarrow> call list \<Rightarrow> Request \<Rightarrow> conn \<Rightarrow> go_panic \<times> conn + conn" where
  "CompressHandler D h = CompressHandlerLevel D h gzip_DefaultCompression"

text \<open>The state a run ends in, whether it returned or panicked.\<close>

fun outcome :: "go_panic \<times> conn + conn \<Rightarrow> conn" where
  "outcome (Inl (p, c)) = c"
| "outcome (Inr c) = c"

fun panic_of :: "go_panic \<times> conn + conn \<Rightarrow> go_panic option" where
  "panic_of (Inl (p, c)) = Some p"
| "panic_of (Inr c) = None"

section \<open>Observations and example inputs\<close>

text \<open>The bytes the original writer received, and the bytes a handler wrote, chunk by chunk.\<close>

fun written :: "raw_call list \<Rightarrow> string list" where
  "written [] = []"
| "written (RawWrite b h # rs) = b # written rs"
| "written (r # rs) = written rs"

fun writes :: "call list \<Rightarrow> string list" where
  "writes [] = []"
| "writes (Write b # cls) = b # writes cls"
| "writes (cl # cls) = writes cls"

text \<open>The status codes the original writer's \<^verbatim>\<open>WriteHeader\<close> received, and those a handler passed.\<close>

fun committed :: "raw_call list \<Rightarrow> int list" where
  "committed [] = []"
| "committed (RawWriteHeader code h # rs) = code # committed rs"
| "committed (r # rs) = committed rs"

fun commits :: "call list \<Rightarrow> int list" where
  "commits [] = []"
| "commits (WriteHeader code # cls) = code # commits cls"
| "commits (cl # cls) = commits cls"

text \<open>The push calls that reached the original writer.\<close>

fun pushed :: "raw_call list \<Rightarrow> (string \<times> nat option) list" where
  "pushed [] = []"
| "pushed (RawPush target opts # rs) = (target, opts) # pushed rs"
| "pushed (r # rs) = pushed rs"

text \<open>The header operations of a handler, applied to a header map in order.\<close>

fun header_ops :: "call list \<Rightarrow> header \<Rightarrow> header" where
  "header_ops [] hm = hm"
| "header_ops (HeaderSet k v # cls) hm = header_ops cls (Header_Set hm k v)"
| "header_ops (HeaderAdd k v # cls) hm = header_ops cls (Header_Add hm k v)"
| "header_ops (HeaderDel k # cls) hm = header_ops cls (Header_Del hm k)"
| "header_ops (cl # cls) hm = header_ops cls hm"

text \<open>A field of \<^verbatim>\<open>Accept-Encoding\<close> that one of the two cases of the switch accepts.\<close>

definition supported :: "string \<Rightarrow> bool" where
  "supported enc \<longleftrightarrow> TrimSpace enc = gzipa \<or> TrimSpace enc = deflate"

text \<open>The level the returned closure works with, after the check at the top of the function.\<close>

definition level_of :: "int \<Rightarrow> int" where
  "level_of level0 = (if level0 < gzip_DefaultCompression \<or> level0 > gzip_BestCompression
                   then gzip_DefaultCompression else level0)"

text \<open>
  The codecs taken from a pool, the codecs put back, and the values given to
  \<^verbatim>\<open>Content-Encoding\<close>, in the order the middleware did it.
\<close>

fun acquired :: "event list \<Rightarrow> (encoding \<times> int) list" where
  "acquired [] = []"
| "acquired (PoolGet enc i # es) = (enc, i) # acquired es"
| "acquired (e # es) = acquired es"

fun released :: "event list \<Rightarrow> (encoding \<times> int) list" where
  "released [] = []"
| "released (PoolPut enc i # es) = (enc, i) # released es"
| "released (e # es) = released es"

fun encodings_set :: "event list \<Rightarrow> string list" where
  "encodings_set [] = []"
| "encodings_set (SetContentEncoding v # es) = v # encodings_set es"
| "encodings_set (e # es) = encodings_set es"

text \<open>
  Example inputs: a sniffer that always answers plain text, a request with one
  \<^verbatim>\<open>Accept-Encoding\<close> value, a request with several, and the connection as the gzip
  and the deflate branch leave it at level \<^verbatim>\<open>BestCompression\<close>, starting from a given
  response header map.
\<close>

definition sniff_plain :: "string \<Rightarrow> string" where
  "sniff_plain b = ''text/plain; charset=utf-8''"

definition accepting :: "string \<Rightarrow> Request" where
  "accepting v = \<lparr>req_Header = [''Accept-Encoding'' \<mapsto> [v]]\<rparr>"

definition accepting_values :: "string list \<Rightarrow> Request" where
  "accepting_values vs = \<lparr>req_Header = [''Accept-Encoding'' \<mapsto> vs]\<rparr>"

definition gzip_conn :: "header \<Rightarrow> conn" where
  "gzip_conn h = outcome (gzip_branch gzip_BestCompression (new_conn h []))"

definition flate_conn :: "header \<Rightarrow> PushOptions list \<Rightarrow> conn" where
  "flate_conn h mem = outcome (flate_branch flate_BestCompression (new_conn h mem))"

definition push_store :: "PushOptions list" where
  "push_store =
     [\<lparr>Method = ''GET'', Header = Some [''User-Agent'' \<mapsto> [''Mozilla/5.0'']]\<rparr>,
      \<lparr>Method = ''GET'', Header = Some [''User-Agent'' \<mapsto> [''Mozilla/5.0''],
                                       ''Accept-Encoding'' \<mapsto> [''deflate'']]\<rparr>,
      \<lparr>Method = ''HEAD'', Header = None\<rparr>]"

section \<open>Basic facts\<close>

lemmas level_consts =
  gzip_NoCompression_def gzip_BestSpeed_def gzip_BestCompression_def gzip_DefaultCompression_def
  flate_BestSpeed_def flate_BestCompression_def flate_DefaultCompression_def
  gzipWriterPools_len_def flateWriterPools_len_def

lemmas hook_defs = WriteHeader_hook_def Write_hook_def Push_hook_def Let_def

lemmas trim_defs = TrimSpace_def TrimRight_def asciiSpace_def space2_def space3_def

lemmas header_defs = Header_Get_def Header_Set_def Header_Add_def Header_Del_def

lemmas branch_defs = gzip_branch_def flate_branch_def gzipPoolIndex_def flatePoolIndex_def
  level_consts Let_def gzipa_def deflate_def

lemmas example_defs = sniff_plain_def accepting_def gzip_conn_def flate_conn_def new_conn_def

lemma written_append: "written (xs @ ys) = written xs @ written ys"
  by (induction xs rule: written.induct) simp_all

lemma committed_append: "committed (xs @ ys) = committed xs @ committed ys"
  by (induction xs rule: committed.induct) simp_all

lemma pushed_append: "pushed (xs @ ys) = pushed xs @ pushed ys"
  by (induction xs rule: pushed.induct) simp_all

lemma do_call_hooks: "hooks (do_call D cl c) = hooks c"
  by (cases cl; cases "hooks c"; cases "the (hooks c)") (simp_all add: do_call_def hook_defs)

lemma do_call_events: "events (do_call D cl c) = events c"
  by (cases cl; cases "hooks c"; cases "the (hooks c)") (simp_all add: do_call_def hook_defs)

lemma do_call_deferred: "deferred (do_call D cl c) = deferred c"
  by (cases cl; cases "hooks c"; cases "the (hooks c)") (simp_all add: do_call_def hook_defs)

lemma do_call_isStream: "isStream c \<Longrightarrow> isStream (do_call D cl c)"
  by (cases cl; cases "hooks c"; cases "the (hooks c)") (simp_all add: do_call_def hook_defs)

lemma ServeHTTP_hooks: "hooks (ServeHTTP D h c) = hooks c"
  by (induction h arbitrary: c) (simp_all add: do_call_hooks)

lemma ServeHTTP_events: "events (ServeHTTP D h c) = events c"
  by (induction h arbitrary: c) (simp_all add: do_call_events)

lemma ServeHTTP_deferred: "deferred (ServeHTTP D h c) = deferred c"
  by (induction h arbitrary: c) (simp_all add: do_call_deferred)

lemma ServeHTTP_isStream: "isStream c \<Longrightarrow> isStream (ServeHTTP D h c)"
  by (induction h arbitrary: c) (simp_all add: do_call_isStream)

lemma do_call_Write: "hooks c \<noteq> None \<Longrightarrow> do_call D (Write b) c = Write_hook D b c"
  by (cases "hooks c") (simp_all add: do_call_def)

lemma do_call_WriteHeader:
  "hooks c \<noteq> None \<Longrightarrow> do_call D (WriteHeader code) c = WriteHeader_hook code c"
  by (cases "hooks c") (simp_all add: do_call_def)

section \<open>The level-to-index mapping\<close>

lemma gzipPoolIndex_inj:
  "inj_on gzipPoolIndex ({gzip_DefaultCompression} \<union> {gzip_BestSpeed..gzip_BestCompression})"
  by (rule inj_onI) (auto simp: gzipPoolIndex_def level_consts split: if_splits)

lemma gzipPoolIndex_image:
  "gzipPoolIndex ` ({gzip_DefaultCompression} \<union> {gzip_BestSpeed..gzip_BestCompression})
     = {0..<gzipWriterPools_len}"
proof (rule set_eqI)
  fix i :: int
  show "i \<in> gzipPoolIndex ` ({gzip_DefaultCompression} \<union> {gzip_BestSpeed..gzip_BestCompression})
          \<longleftrightarrow> i \<in> {0..<gzipWriterPools_len}"
  proof
    assume "i \<in> gzipPoolIndex ` ({gzip_DefaultCompression} \<union> {gzip_BestSpeed..gzip_BestCompression})"
    then show "i \<in> {0..<gzipWriterPools_len}"
      by (auto simp: gzipPoolIndex_def level_consts)
  next
    assume i: "i \<in> {0..<gzipWriterPools_len}"
    show "i \<in> gzipPoolIndex ` ({gzip_DefaultCompression} \<union> {gzip_BestSpeed..gzip_BestCompression})"
    proof (cases "i = 9")
      case True
      then have "i = gzipPoolIndex gzip_DefaultCompression"
        by (simp add: gzipPoolIndex_def level_consts)
      then show ?thesis by blast
    next
      case False
      with i have "i = gzipPoolIndex (i + 1)" and "i + 1 \<in> {gzip_BestSpeed..gzip_BestCompression}"
        by (auto simp: gzipPoolIndex_def level_consts)
      then show ?thesis by blast
    qed
  qed
qed

lemma flatePoolIndex_eq: "flatePoolIndex = gzipPoolIndex"
  by (rule ext) (simp add: flatePoolIndex_def gzipPoolIndex_def level_consts)

text \<open>
  C6. For gzip and for deflate, the index function sends every explicit level \<open>L\<close> of
  \<open>BestSpeed..BestCompression\<close> to \<open>L - BestSpeed\<close>, sends the default-level sentinel to the
  slot right after the best-compression slot, and is a bijection from the valid levels
  \<open>{DefaultCompression} \<union> {BestSpeed..BestCompression}\<close> onto the index range of the pool
  array. (Being a HOL function, it is pure.)
\<close>

theorem poolIndex_bijection:
  "(\<forall>L\<in>{gzip_BestSpeed..gzip_BestCompression}. gzipPoolIndex L = L - gzip_BestSpeed)
   \<and> gzipPoolIndex gzip_DefaultCompression = gzipPoolIndex gzip_BestCompression + 1
   \<and> bij_betw gzipPoolIndex
        ({gzip_DefaultCompression} \<union> {gzip_BestSpeed..gzip_BestCompression})
        {0..<gzipWriterPools_len}
   \<and> (\<forall>L\<in>{flate_BestSpeed..flate_BestCompression}. flatePoolIndex L = L - flate_BestSpeed)
   \<and> flatePoolIndex flate_DefaultCompression = flatePoolIndex flate_BestCompression + 1
   \<and> bij_betw flatePoolIndex
        ({flate_DefaultCompression} \<union> {flate_BestSpeed..flate_BestCompression})
        {0..<flateWriterPools_len}"
proof -
  have g1: "\<forall>L\<in>{gzip_BestSpeed..gzip_BestCompression}. gzipPoolIndex L = L - gzip_BestSpeed"
    by (auto simp: gzipPoolIndex_def level_consts)
  have g2: "gzipPoolIndex gzip_DefaultCompression = gzipPoolIndex gzip_BestCompression + 1"
    by (simp add: gzipPoolIndex_def level_consts)
  have g3: "bij_betw gzipPoolIndex
        ({gzip_DefaultCompression} \<union> {gzip_BestSpeed..gzip_BestCompression})
        {0..<gzipWriterPools_len}"
    unfolding bij_betw_def using gzipPoolIndex_inj gzipPoolIndex_image by blast
  have f1: "\<forall>L\<in>{flate_BestSpeed..flate_BestCompression}. flatePoolIndex L = L - flate_BestSpeed"
    by (auto simp: flatePoolIndex_def level_consts)
  have f2: "flatePoolIndex flate_DefaultCompression = flatePoolIndex flate_BestCompression + 1"
    by (simp add: flatePoolIndex_def level_consts)
  have f3: "bij_betw flatePoolIndex
        ({flate_DefaultCompression} \<union> {flate_BestSpeed..flate_BestCompression})
        {0..<flateWriterPools_len}"
    using g3 by (simp add: flatePoolIndex_eq level_consts)
  from g1 g2 g3 f1 f2 f3 show ?thesis by blast
qed

theorem poolIndex_bijection_witness:
  "(5::int) \<in> {gzip_BestSpeed..gzip_BestCompression} \<and> gzipPoolIndex 5 = 4
   \<and> (5::int) \<in> {flate_BestSpeed..flate_BestCompression} \<and> flatePoolIndex 5 = 4"
proof -
  have m: "(5::int) \<in> {gzip_BestSpeed..gzip_BestCompression}"
    and n: "(5::int) \<in> {flate_BestSpeed..flate_BestCompression}"
    by (simp_all add: level_consts)
  from poolIndex_bijection m have "gzipPoolIndex 5 = 5 - gzip_BestSpeed" by blast
  moreover from poolIndex_bijection n have "flatePoolIndex 5 = 5 - flate_BestSpeed" by blast
  ultimately show ?thesis using m n by (simp add: level_consts)
qed

section \<open>Streaming detection in the Write hook\<close>

lemma do_call_streaming_write:
  assumes "isStream c" "hooks c \<noteq> None"
  shows "codec_in (do_call D cl c) = codec_in c"
    and "written (raw (do_call D cl c)) = written (raw c) @ writes [cl]"
  using assms
  by (cases cl; cases "hooks c"; cases "the (hooks c)";
      simp add: do_call_def hook_defs written_append)+

lemma ServeHTTP_streaming_writes:
  "isStream c \<Longrightarrow> hooks c \<noteq> None \<Longrightarrow>
     codec_in (ServeHTTP D h c) = codec_in c
     \<and> written (raw (ServeHTTP D h c)) = written (raw c) @ writes h"
proof (induction h arbitrary: c)
  case Nil
  then show ?case by simp
next
  case (Cons cl cls)
  have s: "isStream (do_call D cl c)" and k: "hooks (do_call D cl c) \<noteq> None"
    using Cons.prems by (simp_all add: do_call_isStream do_call_hooks)
  have w: "writes (cl # cls) = writes [cl] @ writes cls"
    by (cases cl) simp_all
  from Cons.IH[OF s k] do_call_streaming_write[OF Cons.prems, of D cl] w
  show ?case by simp
qed

lemma Write_hook_classify:
  "isStream (Write_hook D b c) \<longleftrightarrow>
     isStream c
     \<or> Contains (if Header_Get (hdr c) ''Content-Type'' = '''' then D b
                  else Header_Get (hdr c) ''Content-Type'') ''text/event-stream''
     \<or> Header_Get (hdr c) ''Transfer-Encoding'' = ''chunked''"
  by (simp add: hook_defs header_defs)

lemma Write_hook_stream_effect:
  "isStream (Write_hook D b c) \<Longrightarrow>
     codec_sink (Write_hook D b c) = Some Discard
     \<and> hdr (Write_hook D b c) ''Content-Encoding'' = None
     \<and> hdr (Write_hook D b c) ''Vary'' = None
     \<and> raw (Write_hook D b c) = raw c @ [RawWrite b (hdr (Write_hook D b c))]
     \<and> codec_in (Write_hook D b c) = codec_in c"
  by (simp add: hook_defs header_defs split: if_splits)

text \<open>
  C1. On a compressed response (one of the two wrappers is installed), a body write leaves
  the streaming flag set exactly when the flag was set before, or the content type (the
  header's value, or the sniffed type of the chunk when the header has none) contains
  \<^verbatim>\<open>text/event-stream\<close>, or \<^verbatim>\<open>Transfer-Encoding\<close> is \<^verbatim>\<open>chunked\<close>. A write classified as
  streaming resets the codec onto the discard sink, removes \<^verbatim>\<open>Content-Encoding\<close> and
  \<^verbatim>\<open>Vary\<close>, and hands the chunk to the original writer, not to the codec. Once the flag is
  set it stays set whatever the handler does next, and all later writes reach the
  original writer in order while the codec receives nothing.
\<close>

theorem streaming_classification:
  assumes "hooks c \<noteq> None"
  shows "(isStream (do_call D (Write b) c) \<longleftrightarrow>
            isStream c
            \<or> Contains (if Header_Get (hdr c) ''Content-Type'' = '''' then D b
                         else Header_Get (hdr c) ''Content-Type'') ''text/event-stream''
            \<or> Header_Get (hdr c) ''Transfer-Encoding'' = ''chunked'')
       \<and> (isStream (do_call D (Write b) c) \<longrightarrow>
            codec_sink (do_call D (Write b) c) = Some Discard
            \<and> hdr (do_call D (Write b) c) ''Content-Encoding'' = None
            \<and> hdr (do_call D (Write b) c) ''Vary'' = None
            \<and> raw (do_call D (Write b) c) = raw c @ [RawWrite b (hdr (do_call D (Write b) c))]
            \<and> codec_in (do_call D (Write b) c) = codec_in c)
       \<and> (isStream c \<longrightarrow>
            isStream (ServeHTTP D h c)
            \<and> codec_in (ServeHTTP D h c) = codec_in c
            \<and> written (raw (ServeHTTP D h c)) = written (raw c) @ writes h)"
proof -
  note w = do_call_Write[OF assms]
  show ?thesis
    using Write_hook_classify[of D b c] Write_hook_stream_effect[of D b c]
      ServeHTTP_isStream[of c D h] ServeHTTP_streaming_writes[of c D h] assms
    unfolding w by blast
qed


lemma gzip_conn_hooks: "hooks (gzip_conn hm) = Some Gzip"
  by (simp add: example_defs branch_defs)

lemma flate_conn_hooks: "hooks (flate_conn hm mem) = Some Deflate"
  by (simp add: example_defs branch_defs)

theorem streaming_classification_witness:
  "hooks (gzip_conn [''Content-Type'' \<mapsto> [''text/event-stream'']]) \<noteq> None
   \<and> isStream (do_call sniff_plain (Write ''data: test'')
        (gzip_conn [''Content-Type'' \<mapsto> [''text/event-stream'']]))
   \<and> codec_sink (do_call sniff_plain (Write ''data: test'')
        (gzip_conn [''Content-Type'' \<mapsto> [''text/event-stream'']])) = Some Discard
   \<and> hdr (do_call sniff_plain (Write ''data: test'')
        (gzip_conn [''Content-Type'' \<mapsto> [''text/event-stream'']])) ''Content-Encoding'' = None
   \<and> written (raw (do_call sniff_plain (Write ''data: test'')
        (gzip_conn [''Content-Type'' \<mapsto> [''text/event-stream'']]))) = [''data: test'']
   \<and> \<not> isStream (do_call sniff_plain (Write ''Gorilla!'')
        (gzip_conn [''Content-Type'' \<mapsto> [''text/plain; charset=utf-8'']]))
   \<and> hooks (do_call sniff_plain (Write ''data: test'')
        (gzip_conn [''Content-Type'' \<mapsto> [''text/event-stream'']])) \<noteq> None
   \<and> isStream (ServeHTTP sniff_plain
        [HeaderSet ''Content-Type'' ''text/plain'', Write ''a'', WriteHeader 200, Write ''b'']
        (do_call sniff_plain (Write ''data: test'')
          (gzip_conn [''Content-Type'' \<mapsto> [''text/event-stream'']])))
   \<and> codec_in (ServeHTTP sniff_plain
        [HeaderSet ''Content-Type'' ''text/plain'', Write ''a'', WriteHeader 200, Write ''b'']
        (do_call sniff_plain (Write ''data: test'')
          (gzip_conn [''Content-Type'' \<mapsto> [''text/event-stream'']]))) = []
   \<and> written (raw (ServeHTTP sniff_plain
        [HeaderSet ''Content-Type'' ''text/plain'', Write ''a'', WriteHeader 200, Write ''b'']
        (do_call sniff_plain (Write ''data: test'')
          (gzip_conn [''Content-Type'' \<mapsto> [''text/event-stream'']]))))
       = [''data: test'', ''a'', ''b'']"
proof -
  have k: "hooks (gzip_conn hm) \<noteq> None" for hm
    by (simp add: gzip_conn_hooks)
  have k': "hooks (do_call sniff_plain cl (gzip_conn hm)) \<noteq> None" for hm cl
    by (simp add: do_call_hooks gzip_conn_hooks)
  have r: "raw (gzip_conn hm) = []" "\<not> isStream (gzip_conn hm)" "codec_in (gzip_conn hm) = []"
    "hdr (gzip_conn hm) ''Content-Type'' = hm ''Content-Type''"
    "hdr (gzip_conn hm) ''Transfer-Encoding'' = hm ''Transfer-Encoding''" for hm
    by (simp_all add: example_defs branch_defs header_defs)
  have 1: "isStream (do_call sniff_plain (Write ''data: test'')
        (gzip_conn [''Content-Type'' \<mapsto> [''text/event-stream'']]))
   \<and> codec_sink (do_call sniff_plain (Write ''data: test'')
        (gzip_conn [''Content-Type'' \<mapsto> [''text/event-stream'']])) = Some Discard
   \<and> hdr (do_call sniff_plain (Write ''data: test'')
        (gzip_conn [''Content-Type'' \<mapsto> [''text/event-stream'']])) ''Content-Encoding'' = None
   \<and> written (raw (do_call sniff_plain (Write ''data: test'')
        (gzip_conn [''Content-Type'' \<mapsto> [''text/event-stream'']]))) = [''data: test'']
   \<and> codec_in (do_call sniff_plain (Write ''data: test'')
        (gzip_conn [''Content-Type'' \<mapsto> [''text/event-stream'']])) = []"
    using streaming_classification[where D = sniff_plain and b = "''data: test''" and h = "[]"
        and c = "gzip_conn [''Content-Type'' \<mapsto> [''text/event-stream'']]"]
    by (simp add: k r Header_Get_def)
  have 2: "\<not> isStream (do_call sniff_plain (Write ''Gorilla!'')
        (gzip_conn [''Content-Type'' \<mapsto> [''text/plain; charset=utf-8'']]))"
    using streaming_classification[where D = sniff_plain and b = "''Gorilla!''" and h = "[]"
        and c = "gzip_conn [''Content-Type'' \<mapsto> [''text/plain; charset=utf-8'']]"]
    by (simp add: k r Header_Get_def)
  have 3: "isStream (ServeHTTP sniff_plain
        [HeaderSet ''Content-Type'' ''text/plain'', Write ''a'', WriteHeader 200, Write ''b'']
        (do_call sniff_plain (Write ''data: test'')
          (gzip_conn [''Content-Type'' \<mapsto> [''text/event-stream'']])))
   \<and> codec_in (ServeHTTP sniff_plain
        [HeaderSet ''Content-Type'' ''text/plain'', Write ''a'', WriteHeader 200, Write ''b'']
        (do_call sniff_plain (Write ''data: test'')
          (gzip_conn [''Content-Type'' \<mapsto> [''text/event-stream'']]))) = []
   \<and> written (raw (ServeHTTP sniff_plain
        [HeaderSet ''Content-Type'' ''text/plain'', Write ''a'', WriteHeader 200, Write ''b'']
        (do_call sniff_plain (Write ''data: test'')
          (gzip_conn [''Content-Type'' \<mapsto> [''text/event-stream'']]))))
       = [''data: test'', ''a'', ''b'']"
    using streaming_classification[OF k', where D = sniff_plain and b = "''x''"
        and h = "[HeaderSet ''Content-Type'' ''text/plain'', Write ''a'', WriteHeader 200, Write ''b'']"
        and cl1 = "Write ''data: test''" and hm1 = "[''Content-Type'' \<mapsto> [''text/event-stream'']]"] 1
    by simp
  from 1 2 3 k k' show ?thesis by blast
qed

section \<open>The steps of the Write hook\<close>

text \<open>
  C3, as the code has it. On a body write of a compressed response the hook first gives
  \<^verbatim>\<open>Content-Type\<close> the sniffed type of the chunk when \<^verbatim>\<open>Header.Get\<close> finds none. If the
  write is then classified as streaming, the hook removes \<^verbatim>\<open>Content-Encoding\<close> and \<^verbatim>\<open>Vary\<close>,
  leaves \<^verbatim>\<open>Content-Length\<close> as it is, and writes the chunk to the original writer;
  otherwise it removes \<^verbatim>\<open>Content-Length\<close> and writes the chunk into the codec.
\<close>

theorem write_hook_steps:
  assumes "hooks c \<noteq> None"
  shows "(let h = (if Header_Get (hdr c) ''Content-Type'' = ''''
                  then Header_Set (hdr c) ''Content-Type'' (D b) else hdr c);
              c' = do_call D (Write b) c
          in (isStream c' \<longrightarrow>
                hdr c' = Header_Del (Header_Del h ''Content-Encoding'') ''Vary''
                \<and> hdr c' ''Content-Length'' = hdr c ''Content-Length''
                \<and> raw c' = raw c @ [RawWrite b (hdr c')]
                \<and> codec_in c' = codec_in c)
           \<and> (\<not> isStream c' \<longrightarrow>
                hdr c' = Header_Del h ''Content-Length''
                \<and> codec_in c' = codec_in c @ [b]
                \<and> raw c' = raw c))"
  unfolding do_call_Write[OF assms]
  by (simp add: hook_defs header_defs)

theorem write_hook_steps_witness:
  "hooks (gzip_conn [''Content-Length'' \<mapsto> [''9216''], ''Content-Type'' \<mapsto> [''text/plain'']]) \<noteq> None
   \<and> \<not> isStream (do_call sniff_plain (Write ''Gorilla!'')
           (gzip_conn [''Content-Length'' \<mapsto> [''9216''], ''Content-Type'' \<mapsto> [''text/plain'']]))
   \<and> hdr (do_call sniff_plain (Write ''Gorilla!'')
           (gzip_conn [''Content-Length'' \<mapsto> [''9216''], ''Content-Type'' \<mapsto> [''text/plain'']]))
        ''Content-Length'' = None
   \<and> codec_in (do_call sniff_plain (Write ''Gorilla!'')
           (gzip_conn [''Content-Length'' \<mapsto> [''9216''], ''Content-Type'' \<mapsto> [''text/plain'']]))
        = [''Gorilla!'']
   \<and> hooks (gzip_conn [''Content-Length'' \<mapsto> [''5''], ''Transfer-Encoding'' \<mapsto> [''chunked'']]) \<noteq> None
   \<and> isStream (do_call sniff_plain (Write ''hello'')
           (gzip_conn [''Content-Length'' \<mapsto> [''5''], ''Transfer-Encoding'' \<mapsto> [''chunked'']]))
   \<and> hdr (do_call sniff_plain (Write ''hello'')
           (gzip_conn [''Content-Length'' \<mapsto> [''5''], ''Transfer-Encoding'' \<mapsto> [''chunked'']]))
        ''Content-Length'' = Some [''5'']
   \<and> written (raw (do_call sniff_plain (Write ''hello'')
           (gzip_conn [''Content-Length'' \<mapsto> [''5''], ''Transfer-Encoding'' \<mapsto> [''chunked'']])))
        = [''hello'']"
proof -
  have k: "hooks (gzip_conn hm) \<noteq> None" for hm
    by (simp add: gzip_conn_hooks)
  have s1: "\<not> isStream (do_call sniff_plain (Write ''Gorilla!'')
           (gzip_conn [''Content-Length'' \<mapsto> [''9216''], ''Content-Type'' \<mapsto> [''text/plain'']]))"
    unfolding do_call_Write[OF k]
    by (simp add: Write_hook_classify example_defs branch_defs header_defs)
  have s2: "isStream (do_call sniff_plain (Write ''hello'')
           (gzip_conn [''Content-Length'' \<mapsto> [''5''], ''Transfer-Encoding'' \<mapsto> [''chunked'']]))"
    unfolding do_call_Write[OF k]
    by (simp add: Write_hook_classify example_defs branch_defs header_defs)
  have r: "raw (gzip_conn hm) = []" "codec_in (gzip_conn hm) = []"
    "hdr (gzip_conn hm) ''Content-Length'' = hm ''Content-Length''" for hm
    by (simp_all add: example_defs branch_defs header_defs)
  show ?thesis
    using write_hook_steps[where D = sniff_plain and b = "''Gorilla!''"
        and c = "gzip_conn [''Content-Length'' \<mapsto> [''9216''], ''Content-Type'' \<mapsto> [''text/plain'']]"]
      write_hook_steps[where D = sniff_plain and b = "''hello''"
        and c = "gzip_conn [''Content-Length'' \<mapsto> [''5''], ''Transfer-Encoding'' \<mapsto> [''chunked'']]"]
    by (simp add: k s1 s2 r Let_def header_defs)
qed

text \<open>
  C3 as the specification words it fails: a handler sets \<^verbatim>\<open>Content-Type: text/event-stream\<close>
  and \<^verbatim>\<open>Content-Length: 5\<close> and writes five bytes through the gzip wrapper. The write is
  classified as streaming and reaches the original writer, and \<^verbatim>\<open>Content-Length\<close> is
  still there afterwards.
\<close>

theorem streaming_write_keeps_content_length:
  "hooks (gzip_conn [''Content-Length'' \<mapsto> [''5''], ''Content-Type'' \<mapsto> [''text/event-stream'']]) = Some Gzip
   \<and> isStream (do_call sniff_plain (Write ''hello'')
        (gzip_conn [''Content-Length'' \<mapsto> [''5''], ''Content-Type'' \<mapsto> [''text/event-stream'']]))
   \<and> written (raw (do_call sniff_plain (Write ''hello'')
        (gzip_conn [''Content-Length'' \<mapsto> [''5''], ''Content-Type'' \<mapsto> [''text/event-stream'']])))
       = [''hello'']
   \<and> Header_Get (hdr (do_call sniff_plain (Write ''hello'')
        (gzip_conn [''Content-Length'' \<mapsto> [''5''], ''Content-Type'' \<mapsto> [''text/event-stream'']])))
        ''Content-Length'' = ''5''"
  by (simp add: do_call_def example_defs branch_defs hook_defs header_defs)


section \<open>Header commits through the WriteHeader hook\<close>

lemma do_call_committed: "committed (raw (do_call D cl c)) = committed (raw c) @ commits [cl]"
  by (cases cl; cases "hooks c"; cases "the (hooks c)")
     (simp_all add: do_call_def hook_defs committed_append)

lemma ServeHTTP_committed:
  "committed (raw (ServeHTTP D h c)) = committed (raw c) @ commits h"
proof (induction h arbitrary: c)
  case Nil
  then show ?case by simp
next
  case (Cons cl cls)
  have "commits (cl # cls) = commits [cl] @ commits cls"
    by (cases cl) simp_all
  with Cons.IH[of "do_call D cl c"] do_call_committed[of D cl c] show ?case by simp
qed

text \<open>
  C7, as the code has it. The \<^verbatim>\<open>WriteHeader\<close> hook has no once-guard: every call through a
  wrapper removes \<^verbatim>\<open>Content-Length\<close> and then hands the status code to the original
  writer's \<^verbatim>\<open>WriteHeader\<close>, which sees the header map without \<^verbatim>\<open>Content-Length\<close>. Over a
  whole handler run the original writer receives every status code the handler passed,
  in order; ignoring a repeated commit is left to the original writer.
\<close>

theorem writeheader_forwards_every_call:
  assumes "hooks c \<noteq> None"
  shows "hdr (do_call D (WriteHeader code) c) = Header_Del (hdr c) ''Content-Length''
       \<and> hdr (do_call D (WriteHeader code) c) ''Content-Length'' = None
       \<and> raw (do_call D (WriteHeader code) c)
           = raw c @ [RawWriteHeader code (Header_Del (hdr c) ''Content-Length'')]
       \<and> committed (raw (ServeHTTP D h c)) = committed (raw c) @ commits h"
  unfolding do_call_WriteHeader[OF assms] ServeHTTP_committed
  by (simp add: hook_defs header_defs)

theorem writeheader_forwards_every_call_witness:
  "hooks (gzip_conn [''Content-Length'' \<mapsto> [''9216'']]) \<noteq> None
   \<and> hdr (do_call sniff_plain (WriteHeader 200) (gzip_conn [''Content-Length'' \<mapsto> [''9216'']]))
        ''Content-Length'' = None
   \<and> committed (raw (ServeHTTP sniff_plain [WriteHeader 200, Write ''a'', WriteHeader 404]
        (gzip_conn [''Content-Length'' \<mapsto> [''9216'']]))) = [200, 404]"
proof -
  have k: "hooks (gzip_conn hm) \<noteq> None" for hm
    by (simp add: gzip_conn_hooks)
  have r: "raw (gzip_conn hm) = []" for hm
    by (simp add: example_defs branch_defs)
  show ?thesis
    using writeheader_forwards_every_call[where D = sniff_plain and code = 200
        and h = "[WriteHeader 200, Write ''a'', WriteHeader 404]"
        and c = "gzip_conn [''Content-Length'' \<mapsto> [''9216'']]"]
    by (simp add: k r header_defs)
qed

text \<open>
  C7 as the specification words it fails: after \<^verbatim>\<open>WriteHeader(200)\<close> a second call
  \<^verbatim>\<open>WriteHeader(500)\<close> through the gzip wrapper reaches the original writer as well, and a
  \<^verbatim>\<open>Content-Length\<close> set between two calls is removed by the second one.
\<close>

theorem second_writeheader_is_forwarded:
  "hooks (gzip_conn Map.empty) = Some Gzip
   \<and> committed (raw (ServeHTTP sniff_plain [WriteHeader 200, WriteHeader 500] (gzip_conn Map.empty)))
       = [200, 500]
   \<and> Header_Get (hdr (ServeHTTP sniff_plain
         [WriteHeader 200, HeaderSet ''Content-Length'' ''5''] (gzip_conn Map.empty)))
       ''Content-Length'' = ''5''
   \<and> Header_Get (hdr (ServeHTTP sniff_plain
         [WriteHeader 200, HeaderSet ''Content-Length'' ''5'', WriteHeader 200] (gzip_conn Map.empty)))
       ''Content-Length'' = ''''"
  by (simp add: do_call_def example_defs branch_defs hook_defs header_defs)

section \<open>The scan of Accept-Encoding\<close>

lemma loop_L_none: "\<forall>t\<in>set toks. \<not> supported t \<Longrightarrow> loop_L level toks c = Inr c"
  by (induction toks) (simp_all add: supported_def)

lemma loop_L_first:
  "\<forall>t\<in>set pre. \<not> supported t \<Longrightarrow> supported tok \<Longrightarrow>
     loop_L level (pre @ tok # post) c = loop_L level [tok] c"
  by (induction pre) (auto simp: supported_def)

lemma loop_L_stops:
  "supported tok \<Longrightarrow> loop_L level (pre @ tok # post) c = loop_L level (pre @ [tok]) c"
  by (induction pre) (auto simp: supported_def)

lemma loop_L_cases:
  "loop_L level toks c = Inr c \<and> (\<forall>t\<in>set toks. \<not> supported t)
   \<or> loop_L level toks c = gzip_branch level c \<and> (\<exists>t\<in>set toks. TrimSpace t = gzipa)
   \<or> loop_L level toks c = flate_branch level c \<and> (\<exists>t\<in>set toks. TrimSpace t = deflate)"
  by (induction toks) (auto simp: supported_def)

lemma loop_L_find:
  "loop_L level toks c =
     (case find supported toks of
        None \<Rightarrow> Inr c
      | Some tok \<Rightarrow> if TrimSpace tok = gzipa then gzip_branch level c else flate_branch level c)"
  by (induction toks) (auto simp: supported_def)

lemma run_deferred_events:
  "events (run_deferred ds c) = events c @ concat (map (\<lambda>(e, i). [CodecClose e, PoolPut e i]) ds)"
  by (induction ds c rule: run_deferred.induct) simp_all

lemma CompressHandlerLevel_events:
  "events (outcome (CompressHandlerLevel D h level0 r w)) =
     (case loop_L (if level0 < gzip_DefaultCompression \<or> level0 > gzip_BestCompression
                   then gzip_DefaultCompression else level0)
             (Split (Header_Get (req_Header r) ''Accept-Encoding'') CHR '','') w of
        Inl (p, c) \<Rightarrow> events c
      | Inr w' \<Rightarrow> events w' @ concat (map (\<lambda>(e, i). [CodecClose e, PoolPut e i]) (deferred w')))"
  by (simp add: CompressHandlerLevel_def Let_def run_deferred_events ServeHTTP_events
      ServeHTTP_deferred split: sum.splits prod.splits)

lemma gzip_branch_new:
  "gzip_branch level (new_conn hm mem) =
     (if gzipPoolIndex level < 0 \<or> gzipWriterPools_len \<le> gzipPoolIndex level
      then Inl (IndexOutOfRange (gzipPoolIndex level),
                (new_conn hm mem)\<lparr>hdr := Header_Add (Header_Set hm ''Content-Encoding'' gzipa) ''Vary'' ''Accept-Encoding'',
                 events := [SetContentEncoding gzipa]\<rparr>)
      else Inr ((new_conn hm mem)\<lparr>hdr := Header_Add (Header_Set hm ''Content-Encoding'' gzipa) ''Vary'' ''Accept-Encoding'',
                 events := [SetContentEncoding gzipa, PoolGet Gzip (gzipPoolIndex level)],
                 codec_sink := Some Writer, deferred := [(Gzip, gzipPoolIndex level)],
                 hooks := Some Gzip\<rparr>))"
  by (simp add: gzip_branch_def new_conn_def Let_def)

lemma flate_branch_new:
  "flate_branch level (new_conn hm mem) =
     (if flatePoolIndex level < 0 \<or> flateWriterPools_len \<le> flatePoolIndex level
      then Inl (IndexOutOfRange (flatePoolIndex level),
                (new_conn hm mem)\<lparr>hdr := Header_Add (Header_Set hm ''Content-Encoding'' deflate) ''Vary'' ''Accept-Encoding'',
                 events := [SetContentEncoding deflate]\<rparr>)
      else Inr ((new_conn hm mem)\<lparr>hdr := Header_Add (Header_Set hm ''Content-Encoding'' deflate) ''Vary'' ''Accept-Encoding'',
                 events := [SetContentEncoding deflate, PoolGet Deflate (flatePoolIndex level)],
                 codec_sink := Some Writer, deferred := [(Deflate, flatePoolIndex level)],
                 hooks := Some Deflate\<rparr>))"
  by (simp add: flate_branch_def new_conn_def Let_def)

lemma events_new:
  "events (outcome (CompressHandlerLevel D h level0 r (new_conn hm mem))) =
     (case find supported (Split (Header_Get (req_Header r) ''Accept-Encoding'') CHR '','') of
        None \<Rightarrow> []
      | Some tok \<Rightarrow>
          if TrimSpace tok = gzipa
          then (if gzipPoolIndex (level_of level0) < 0 \<or> gzipWriterPools_len \<le> gzipPoolIndex (level_of level0)
                then [SetContentEncoding gzipa]
                else [SetContentEncoding gzipa, PoolGet Gzip (gzipPoolIndex (level_of level0)),
                      CodecClose Gzip, PoolPut Gzip (gzipPoolIndex (level_of level0))])
          else (if flatePoolIndex (level_of level0) < 0 \<or> flateWriterPools_len \<le> flatePoolIndex (level_of level0)
                then [SetContentEncoding deflate]
                else [SetContentEncoding deflate, PoolGet Deflate (flatePoolIndex (level_of level0)),
                      CodecClose Deflate, PoolPut Deflate (flatePoolIndex (level_of level0))]))"
proof -
  have e: "events (new_conn hm mem) = []" "deferred (new_conn hm mem) = []"
    by (simp_all add: new_conn_def)
  show ?thesis
    unfolding CompressHandlerLevel_events loop_L_find level_of_def[symmetric]
    by (simp add: gzip_branch_new flate_branch_new e split: option.splits)
qed

lemma find_supported_first:
  "\<forall>t\<in>set pre. \<not> supported t \<Longrightarrow> supported tok \<Longrightarrow> find supported (pre @ tok # post) = Some tok"
  by (induction pre) simp_all

lemma find_supported_None: "find supported toks = None \<longleftrightarrow> \<not> (\<exists>t\<in>set toks. supported t)"
  by (auto simp: find_None_iff)

lemma index_in_range:
  "gzipPoolIndex (level_of level0) < 0 \<or> gzipWriterPools_len \<le> gzipPoolIndex (level_of level0)
     \<longleftrightarrow> level0 = 0"
  "flatePoolIndex (level_of level0) < 0 \<or> flateWriterPools_len \<le> flatePoolIndex (level_of level0)
     \<longleftrightarrow> level0 = 0"
  by (auto simp: level_of_def gzipPoolIndex_def flatePoolIndex_def level_consts)

lemma gzip_branch_header:
  "hdr (outcome (gzip_branch level c)) ''Content-Encoding'' = Some [gzipa]"
  "panic_of (gzip_branch level c) = None \<Longrightarrow> hooks (outcome (gzip_branch level c)) = Some Gzip"
  by (simp_all add: gzip_branch_def Let_def header_defs split: if_splits)

lemma flate_branch_header:
  "hdr (outcome (flate_branch level c)) ''Content-Encoding'' = Some [deflate]"
  "panic_of (flate_branch level c) = None \<Longrightarrow> hooks (outcome (flate_branch level c)) = Some Deflate"
  by (simp_all add: flate_branch_def Let_def header_defs split: if_splits)

text \<open>
  C2, as the code has it. The client's order decides: when the fields before \<open>tok\<close> are
  neither \<^verbatim>\<open>gzip\<close> nor \<^verbatim>\<open>deflate\<close> after trimming, a field \<open>tok\<close> that trims to \<^verbatim>\<open>gzip\<close>
  makes the loop run the gzip branch (\<^verbatim>\<open>Content-Encoding: gzip\<close>, the gzip wrapper unless the
  pool lookup panics), and a field that trims to \<^verbatim>\<open>deflate\<close> makes it run the deflate
  branch, whatever follows \<open>tok\<close>. So gzip is chosen over deflate exactly when a gzip
  field comes first.
\<close>

theorem first_supported_token_wins:
  assumes "Split (Header_Get (req_Header r) ''Accept-Encoding'') CHR '','' = pre @ tok # post"
    and "\<forall>t\<in>set pre. TrimSpace t \<noteq> gzipa \<and> TrimSpace t \<noteq> deflate"
  shows "(TrimSpace tok = gzipa \<longrightarrow>
            loop_L level (Split (Header_Get (req_Header r) ''Accept-Encoding'') CHR '','') w
              = gzip_branch level w
            \<and> hdr (outcome (gzip_branch level w)) ''Content-Encoding'' = Some [gzipa]
            \<and> (panic_of (gzip_branch level w) = None \<longrightarrow>
                 hooks (outcome (gzip_branch level w)) = Some Gzip)
            \<and> encodings_set (events (outcome
                 (CompressHandlerLevel D h level0 r (new_conn hm mem)))) = [gzipa])
       \<and> (TrimSpace tok = deflate \<longrightarrow>
            loop_L level (Split (Header_Get (req_Header r) ''Accept-Encoding'') CHR '','') w
              = flate_branch level w
            \<and> hdr (outcome (flate_branch level w)) ''Content-Encoding'' = Some [deflate]
            \<and> (panic_of (flate_branch level w) = None \<longrightarrow>
                 hooks (outcome (flate_branch level w)) = Some Deflate)
            \<and> encodings_set (events (outcome
                 (CompressHandlerLevel D h level0 r (new_conn hm mem)))) = [deflate])"
proof -
  have pre: "\<forall>t\<in>set pre. \<not> supported t"
    using assms(2) by (simp add: supported_def)
  have g: "TrimSpace tok = gzipa \<Longrightarrow>
      find supported (Split (Header_Get (req_Header r) ''Accept-Encoding'') CHR '','') = Some tok"
    unfolding assms(1) by (rule find_supported_first[OF pre]) (simp add: supported_def)
  have d: "TrimSpace tok = deflate \<Longrightarrow>
      find supported (Split (Header_Get (req_Header r) ''Accept-Encoding'') CHR '','') = Some tok"
    unfolding assms(1) by (rule find_supported_first[OF pre]) (simp add: supported_def)
  have ne: "deflate \<noteq> gzipa"
    by (simp add: deflate_def gzipa_def)
  show ?thesis
    using g d ne
    by (auto simp: loop_L_find events_new gzip_branch_header flate_branch_header)
qed

theorem first_supported_token_wins_witness:
  "Split (Header_Get (req_Header (accepting ''br, deflate, gzip'')) ''Accept-Encoding'') CHR '',''
      = [''br''] @ '' deflate'' # ['' gzip'']
   \<and> TrimSpace ''br'' \<noteq> gzipa \<and> TrimSpace ''br'' \<noteq> deflate
   \<and> TrimSpace '' deflate'' = deflate
   \<and> loop_L 9 (Split (Header_Get (req_Header (accepting ''br, deflate, gzip''))
        ''Accept-Encoding'') CHR '','') (new_conn Map.empty [])
       = flate_branch 9 (new_conn Map.empty [])
   \<and> encodings_set (events (outcome (CompressHandlerLevel sniff_plain [] 9
        (accepting ''br, deflate, gzip'') (new_conn Map.empty [])))) = [deflate]
   \<and> Split (Header_Get (req_Header (accepting ''gzip, deflate '')) ''Accept-Encoding'') CHR '',''
      = [] @ ''gzip'' # ['' deflate '']
   \<and> TrimSpace ''gzip'' = gzipa
   \<and> loop_L 9 (Split (Header_Get (req_Header (accepting ''gzip, deflate ''))
        ''Accept-Encoding'') CHR '','') (new_conn Map.empty [])
       = gzip_branch 9 (new_conn Map.empty [])
   \<and> hdr (outcome (gzip_branch 9 (new_conn Map.empty []))) ''Content-Encoding'' = Some [gzipa]
   \<and> encodings_set (events (outcome (CompressHandlerLevel sniff_plain [] 9
        (accepting ''gzip, deflate '') (new_conn Map.empty [])))) = [gzipa]"
proof -
  have s: "Split (Header_Get (req_Header (accepting ''br, deflate, gzip'')) ''Accept-Encoding'') CHR '',''
      = [''br''] @ '' deflate'' # ['' gzip'']"
    by (simp add: accepting_def Header_Get_def)
  have p: "\<forall>t\<in>set [''br'']. TrimSpace t \<noteq> gzipa \<and> TrimSpace t \<noteq> deflate"
    by (simp add: trim_defs gzipa_def deflate_def)
  have t: "TrimSpace '' deflate'' = deflate"
    by (simp add: trim_defs deflate_def)
  have s': "Split (Header_Get (req_Header (accepting ''gzip, deflate '')) ''Accept-Encoding'') CHR '',''
      = [] @ ''gzip'' # ['' deflate '']"
    by (simp add: accepting_def Header_Get_def)
  have p': "\<forall>t\<in>set []. TrimSpace t \<noteq> gzipa \<and> TrimSpace t \<noteq> deflate"
    by simp
  have t': "TrimSpace ''gzip'' = gzipa"
    by (simp add: trim_defs gzipa_def)
  have 1: "loop_L 9 (Split (Header_Get (req_Header (accepting ''br, deflate, gzip''))
        ''Accept-Encoding'') CHR '','') (new_conn Map.empty [])
       = flate_branch 9 (new_conn Map.empty [])
   \<and> encodings_set (events (outcome (CompressHandlerLevel sniff_plain [] 9
        (accepting ''br, deflate, gzip'') (new_conn Map.empty [])))) = [deflate]"
    using first_supported_token_wins[OF s p, where level = 9 and w = "new_conn Map.empty []"
        and D = sniff_plain and h = "[]" and ?level0.0 = 9 and hm = Map.empty and mem = "[]"] t
    by blast
  have 2: "loop_L 9 (Split (Header_Get (req_Header (accepting ''gzip, deflate ''))
        ''Accept-Encoding'') CHR '','') (new_conn Map.empty [])
       = gzip_branch 9 (new_conn Map.empty [])
   \<and> hdr (outcome (gzip_branch 9 (new_conn Map.empty []))) ''Content-Encoding'' = Some [gzipa]
   \<and> encodings_set (events (outcome (CompressHandlerLevel sniff_plain [] 9
        (accepting ''gzip, deflate '') (new_conn Map.empty [])))) = [gzipa]"
    using first_supported_token_wins[OF s' p', where level = 9 and w = "new_conn Map.empty []"
        and D = sniff_plain and h = "[]" and ?level0.0 = 9 and hm = Map.empty and mem = "[]"] t'
    by blast
  from s p t s' t' 1 2 show ?thesis by simp
qed

text \<open>
  C2 as the specification words it fails: \<^verbatim>\<open>Accept-Encoding: deflate, gzip\<close> holds both
  tokens, and the response is deflate-encoded.
\<close>

theorem deflate_before_gzip_selects_deflate:
  "gzipa \<in> set (map TrimSpace (Split ''deflate, gzip'' CHR '',''))
   \<and> deflate \<in> set (map TrimSpace (Split ''deflate, gzip'' CHR '',''))
   \<and> Header_Get (req_Header (accepting ''deflate, gzip'')) ''Accept-Encoding'' = ''deflate, gzip''
   \<and> hooks (outcome (CompressHandlerLevel sniff_plain [] gzip_BestCompression
        (accepting ''deflate, gzip'') (new_conn Map.empty []))) = Some Deflate
   \<and> hdr (outcome (CompressHandlerLevel sniff_plain [] gzip_BestCompression
        (accepting ''deflate, gzip'') (new_conn Map.empty []))) ''Content-Encoding'' = Some [''deflate'']
   \<and> events (outcome (CompressHandlerLevel sniff_plain [] gzip_BestCompression
        (accepting ''deflate, gzip'') (new_conn Map.empty [])))
       = [SetContentEncoding ''deflate'', PoolGet Deflate 8, CodecClose Deflate, PoolPut Deflate 8]"
  by (simp add: CompressHandlerLevel_def accepting_def new_conn_def branch_defs header_defs
      TrimSpace_def TrimRight_def asciiSpace_def space2_def space3_def)

lemma direct_call_hooks: "hooks (direct_call cl c) = hooks c"
  by (cases cl) simp_all

lemma ServeHTTP_direct: "hooks c = None \<Longrightarrow> ServeHTTP D h c = fold direct_call h c"
  by (induction h arbitrary: c) (simp_all add: do_call_def direct_call_hooks)

lemma fold_direct_events: "events (fold direct_call h c) = events c"
proof (induction h arbitrary: c)
  case (Cons cl cls)
  then show ?case by (cases cl) simp_all
qed simp

lemma fold_direct_hooks: "hooks (fold direct_call h c) = hooks c"
  by (induction h arbitrary: c) (simp_all add: direct_call_hooks)

lemma fold_direct_written: "written (raw (fold direct_call h c)) = written (raw c) @ writes h"
proof (induction h arbitrary: c)
  case (Cons cl cls)
  then show ?case by (cases cl) (simp_all add: written_append)
qed simp

lemma fold_direct_deferred: "deferred (fold direct_call h c) = deferred c"
proof (induction h arbitrary: c)
  case (Cons cl cls)
  then show ?case by (cases cl) simp_all
qed simp

lemma deferred_reset: "deferred c = [] \<Longrightarrow> c\<lparr>deferred := []\<rparr> = c"
  by (cases c) simp

lemma fold_direct_hdr: "hdr (fold direct_call h c) = header_ops h (hdr c)"
proof (induction h arbitrary: c)
  case (Cons cl cls)
  then show ?case by (cases cl) simp_all
qed simp

lemma fold_direct_codec: "codec_sink (fold direct_call h c) = codec_sink c"
proof (induction h arbitrary: c)
  case (Cons cl cls)
  then show ?case by (cases cl) simp_all
qed simp

lemma run_deferred_hooks: "hooks (run_deferred ds c) = hooks c"
  by (induction ds c rule: run_deferred.induct) simp_all

lemma CompressHandlerLevel_loop:
  "CompressHandlerLevel D h level0 r w =
     (case loop_L (level_of level0) (Split (Header_Get (req_Header r) ''Accept-Encoding'') CHR '','') w of
        Inl p \<Rightarrow> Inl p
      | Inr w' \<Rightarrow> Inr (run_deferred (deferred (ServeHTTP D h w')) ((ServeHTTP D h w')\<lparr>deferred := []\<rparr>)))"
  by (simp add: CompressHandlerLevel_def level_of_def Let_def split: sum.splits)

lemma no_supported_no_branch:
  assumes "\<forall>t\<in>set (Split (Header_Get (req_Header r) ''Accept-Encoding'') CHR '',''). \<not> supported t"
  shows "CompressHandlerLevel D h level0 r (new_conn hm mem) = Inr (fold direct_call h (new_conn hm mem))"
proof -
  have n: "hooks (new_conn hm mem) = None" "deferred (new_conn hm mem) = []"
    by (simp_all add: new_conn_def)
  have d: "deferred (fold direct_call h (new_conn hm mem)) = []"
    by (simp add: fold_direct_deferred n)
  show ?thesis
    unfolding CompressHandlerLevel_loop loop_L_none[OF assms]
    by (simp add: ServeHTTP_direct[OF n(1)] d deferred_reset[OF d])
qed

lemma empty_not_supported:
  "Header_Get (req_Header r) ''Accept-Encoding'' = '''' \<Longrightarrow>
     \<forall>t\<in>set (Split (Header_Get (req_Header r) ''Accept-Encoding'') CHR '',''). \<not> supported t"
  by (simp add: supported_def trim_defs gzipa_def deflate_def)

lemma hooks_after:
  "hooks (run_deferred ds ((ServeHTTP D h w)\<lparr>deferred := []\<rparr>)) = hooks w"
  by (simp add: run_deferred_hooks ServeHTTP_hooks)

lemma gzip_selected:
  assumes "find supported (Split (Header_Get (req_Header r) ''Accept-Encoding'') CHR '','') = Some tok"
    and "TrimSpace tok = gzipa"
  shows "loop_L (level_of level0) (Split (Header_Get (req_Header r) ''Accept-Encoding'') CHR '','')
           (new_conn hm mem) = gzip_branch (level_of level0) (new_conn hm mem)"
    and "hdr (outcome (gzip_branch (level_of level0) (new_conn hm mem))) ''Content-Encoding'' = Some [''gzip'']"
    and "level0 = 0 \<Longrightarrow> panic_of (CompressHandlerLevel D h level0 r (new_conn hm mem)) \<noteq> None"
    and "level0 \<noteq> 0 \<Longrightarrow>
           hooks (outcome (gzip_branch (level_of level0) (new_conn hm mem))) = Some Gzip
           \<and> codec_sink (outcome (gzip_branch (level_of level0) (new_conn hm mem))) = Some Writer
           \<and> panic_of (CompressHandlerLevel D h level0 r (new_conn hm mem)) = None
           \<and> hooks (outcome (CompressHandlerLevel D h level0 r (new_conn hm mem))) = Some Gzip
           \<and> acquired (events (outcome (CompressHandlerLevel D h level0 r (new_conn hm mem))))
               = [(Gzip, gzipPoolIndex (level_of level0))]"
proof -
  show l: "loop_L (level_of level0) (Split (Header_Get (req_Header r) ''Accept-Encoding'') CHR '','')
           (new_conn hm mem) = gzip_branch (level_of level0) (new_conn hm mem)"
    by (simp add: loop_L_find assms)
  show "hdr (outcome (gzip_branch (level_of level0) (new_conn hm mem))) ''Content-Encoding'' = Some [''gzip'']"
    using gzip_branch_header(1)[of "level_of level0" "new_conn hm mem"] by (simp add: gzipa_def)
  show "level0 = 0 \<Longrightarrow> panic_of (CompressHandlerLevel D h level0 r (new_conn hm mem)) \<noteq> None"
    unfolding CompressHandlerLevel_loop l using index_in_range(1)[of level0]
    by (simp add: gzip_branch_new)
  show "level0 \<noteq> 0 \<Longrightarrow>
           hooks (outcome (gzip_branch (level_of level0) (new_conn hm mem))) = Some Gzip
           \<and> codec_sink (outcome (gzip_branch (level_of level0) (new_conn hm mem))) = Some Writer
           \<and> panic_of (CompressHandlerLevel D h level0 r (new_conn hm mem)) = None
           \<and> hooks (outcome (CompressHandlerLevel D h level0 r (new_conn hm mem))) = Some Gzip
           \<and> acquired (events (outcome (CompressHandlerLevel D h level0 r (new_conn hm mem))))
               = [(Gzip, gzipPoolIndex (level_of level0))]"
    unfolding events_new
    unfolding CompressHandlerLevel_loop l using index_in_range(1)[of level0]
    by (simp add: gzip_branch_new hooks_after assms)
qed

lemma flate_selected:
  assumes "find supported (Split (Header_Get (req_Header r) ''Accept-Encoding'') CHR '','') = Some tok"
    and "TrimSpace tok \<noteq> gzipa"
  shows "loop_L (level_of level0) (Split (Header_Get (req_Header r) ''Accept-Encoding'') CHR '','')
           (new_conn hm mem) = flate_branch (level_of level0) (new_conn hm mem)"
    and "hdr (outcome (flate_branch (level_of level0) (new_conn hm mem))) ''Content-Encoding'' = Some [''deflate'']"
    and "level0 = 0 \<Longrightarrow> panic_of (CompressHandlerLevel D h level0 r (new_conn hm mem)) \<noteq> None"
    and "level0 \<noteq> 0 \<Longrightarrow>
           hooks (outcome (flate_branch (level_of level0) (new_conn hm mem))) = Some Deflate
           \<and> codec_sink (outcome (flate_branch (level_of level0) (new_conn hm mem))) = Some Writer
           \<and> panic_of (CompressHandlerLevel D h level0 r (new_conn hm mem)) = None
           \<and> hooks (outcome (CompressHandlerLevel D h level0 r (new_conn hm mem))) = Some Deflate
           \<and> acquired (events (outcome (CompressHandlerLevel D h level0 r (new_conn hm mem))))
               = [(Deflate, flatePoolIndex (level_of level0))]"
proof -
  show l: "loop_L (level_of level0) (Split (Header_Get (req_Header r) ''Accept-Encoding'') CHR '','')
           (new_conn hm mem) = flate_branch (level_of level0) (new_conn hm mem)"
    by (simp add: loop_L_find assms)
  show "hdr (outcome (flate_branch (level_of level0) (new_conn hm mem))) ''Content-Encoding'' = Some [''deflate'']"
    using flate_branch_header(1)[of "level_of level0" "new_conn hm mem"] by (simp add: deflate_def)
  show "level0 = 0 \<Longrightarrow> panic_of (CompressHandlerLevel D h level0 r (new_conn hm mem)) \<noteq> None"
    unfolding CompressHandlerLevel_loop l using index_in_range(2)[of level0]
    by (simp add: flate_branch_new)
  show "level0 \<noteq> 0 \<Longrightarrow>
           hooks (outcome (flate_branch (level_of level0) (new_conn hm mem))) = Some Deflate
           \<and> codec_sink (outcome (flate_branch (level_of level0) (new_conn hm mem))) = Some Writer
           \<and> panic_of (CompressHandlerLevel D h level0 r (new_conn hm mem)) = None
           \<and> hooks (outcome (CompressHandlerLevel D h level0 r (new_conn hm mem))) = Some Deflate
           \<and> acquired (events (outcome (CompressHandlerLevel D h level0 r (new_conn hm mem))))
               = [(Deflate, flatePoolIndex (level_of level0))]"
    unfolding events_new
    unfolding CompressHandlerLevel_loop l using index_in_range(2)[of level0]
    by (simp add: flate_branch_new hooks_after assms)
qed

section \<open>When an encoding is selected\<close>

text \<open>
  C4, as the code has it. The middleware reads the header with \<^verbatim>\<open>Header.Get\<close>, which
  returns the first \<^verbatim>\<open>Accept-Encoding\<close> value only. A branch of the switch runs exactly when
  some field of that value, cut at commas and trimmed, is the string \<^verbatim>\<open>gzip\<close> or the string
  \<^verbatim>\<open>deflate\<close>, compared byte for byte; the run then ends with a wrapper installed or with
  the panic of the pool lookup. When a branch runs, it is the gzip or the deflate branch:
  \<^verbatim>\<open>Content-Encoding\<close> holds that one value, and for every level but \<open>0\<close> the codec of the
  level's slot is taken and reset onto the writer and the wrapper of that encoding is in
  place to the end of the run. When no field matches, and so when the header is absent
  or empty, the run is the handler's calls on the original writer: no wrapper, no codec,
  the header map changed by the handler's own operations only, and the original writer
  receives the handler's chunks as written.
\<close>

theorem selection_iff_token_of_first_value:
  "((\<exists>tok\<in>set (Split (Header_Get (req_Header r) ''Accept-Encoding'') CHR '','').
        TrimSpace tok = ''gzip'' \<or> TrimSpace tok = ''deflate'')
      \<longleftrightarrow> hooks (outcome (CompressHandlerLevel D h level0 r (new_conn hm mem))) \<noteq> None
           \<or> panic_of (CompressHandlerLevel D h level0 r (new_conn hm mem)) \<noteq> None)
   \<and> ((\<exists>tok\<in>set (Split (Header_Get (req_Header r) ''Accept-Encoding'') CHR '','').
        TrimSpace tok = ''gzip'' \<or> TrimSpace tok = ''deflate'') \<longrightarrow>
        (loop_L (level_of level0) (Split (Header_Get (req_Header r) ''Accept-Encoding'') CHR '','')
             (new_conn hm mem) = gzip_branch (level_of level0) (new_conn hm mem)
           \<and> hdr (outcome (gzip_branch (level_of level0) (new_conn hm mem))) ''Content-Encoding''
               = Some [''gzip'']
           \<and> (level0 \<noteq> 0 \<longrightarrow>
                hooks (outcome (gzip_branch (level_of level0) (new_conn hm mem))) = Some Gzip
                \<and> codec_sink (outcome (gzip_branch (level_of level0) (new_conn hm mem))) = Some Writer
                \<and> panic_of (CompressHandlerLevel D h level0 r (new_conn hm mem)) = None
                \<and> hooks (outcome (CompressHandlerLevel D h level0 r (new_conn hm mem))) = Some Gzip
                \<and> acquired (events (outcome (CompressHandlerLevel D h level0 r (new_conn hm mem))))
                    = [(Gzip, gzipPoolIndex (level_of level0))]))
        \<or> (loop_L (level_of level0) (Split (Header_Get (req_Header r) ''Accept-Encoding'') CHR '','')
             (new_conn hm mem) = flate_branch (level_of level0) (new_conn hm mem)
           \<and> hdr (outcome (flate_branch (level_of level0) (new_conn hm mem))) ''Content-Encoding''
               = Some [''deflate'']
           \<and> (level0 \<noteq> 0 \<longrightarrow>
                hooks (outcome (flate_branch (level_of level0) (new_conn hm mem))) = Some Deflate
                \<and> codec_sink (outcome (flate_branch (level_of level0) (new_conn hm mem))) = Some Writer
                \<and> panic_of (CompressHandlerLevel D h level0 r (new_conn hm mem)) = None
                \<and> hooks (outcome (CompressHandlerLevel D h level0 r (new_conn hm mem))) = Some Deflate
                \<and> acquired (events (outcome (CompressHandlerLevel D h level0 r (new_conn hm mem))))
                    = [(Deflate, flatePoolIndex (level_of level0))])))
   \<and> (\<not> (\<exists>tok\<in>set (Split (Header_Get (req_Header r) ''Accept-Encoding'') CHR '','').
        TrimSpace tok = ''gzip'' \<or> TrimSpace tok = ''deflate'') \<longrightarrow>
        CompressHandlerLevel D h level0 r (new_conn hm mem)
          = Inr (fold direct_call h (new_conn hm mem)))
   \<and> (Header_Get (req_Header r) ''Accept-Encoding'' = '''' \<longrightarrow>
        CompressHandlerLevel D h level0 r (new_conn hm mem)
          = Inr (fold direct_call h (new_conn hm mem)))
   \<and> hooks (fold direct_call h (new_conn hm mem)) = None
   \<and> codec_sink (fold direct_call h (new_conn hm mem)) = None
   \<and> events (fold direct_call h (new_conn hm mem)) = []
   \<and> hdr (fold direct_call h (new_conn hm mem)) = header_ops h hm
   \<and> written (raw (fold direct_call h (new_conn hm mem))) = writes h"
proof -
  let ?toks = "Split (Header_Get (req_Header r) ''Accept-Encoding'') CHR '',''"
  let ?res = "CompressHandlerLevel D h level0 r (new_conn hm mem)"
  let ?ex = "\<exists>tok\<in>set ?toks. TrimSpace tok = ''gzip'' \<or> TrimSpace tok = ''deflate''"
  have n: "hooks (new_conn hm mem) = None" "events (new_conn hm mem) = []"
    "raw (new_conn hm mem) = []" "codec_sink (new_conn hm mem) = None" "hdr (new_conn hm mem) = hm"
    by (simp_all add: new_conn_def)
  have sup: "?ex \<longleftrightarrow> (\<exists>t\<in>set ?toks. supported t)"
    by (simp add: supported_def gzipa_def deflate_def)
  have plain: "hooks (fold direct_call h (new_conn hm mem)) = None"
    "codec_sink (fold direct_call h (new_conn hm mem)) = None"
    "events (fold direct_call h (new_conn hm mem)) = []"
    "hdr (fold direct_call h (new_conn hm mem)) = header_ops h hm"
    "written (raw (fold direct_call h (new_conn hm mem))) = writes h"
    by (simp_all add: fold_direct_hooks fold_direct_codec fold_direct_events fold_direct_hdr
        fold_direct_written n)
  have none: "\<not> ?ex \<Longrightarrow> ?res = Inr (fold direct_call h (new_conn hm mem))"
    using no_supported_no_branch[of r D h level0 hm mem] sup by blast
  have empty: "Header_Get (req_Header r) ''Accept-Encoding'' = '''' \<Longrightarrow>
      ?res = Inr (fold direct_call h (new_conn hm mem))"
    using no_supported_no_branch[OF empty_not_supported] by blast
  have some: "?ex \<Longrightarrow>
        (loop_L (level_of level0) ?toks (new_conn hm mem) = gzip_branch (level_of level0) (new_conn hm mem)
           \<and> hdr (outcome (gzip_branch (level_of level0) (new_conn hm mem))) ''Content-Encoding''
               = Some [''gzip'']
           \<and> (level0 = 0 \<longrightarrow> panic_of ?res \<noteq> None)
           \<and> (level0 \<noteq> 0 \<longrightarrow>
                hooks (outcome (gzip_branch (level_of level0) (new_conn hm mem))) = Some Gzip
                \<and> codec_sink (outcome (gzip_branch (level_of level0) (new_conn hm mem))) = Some Writer
                \<and> panic_of ?res = None
                \<and> hooks (outcome ?res) = Some Gzip
                \<and> acquired (events (outcome ?res)) = [(Gzip, gzipPoolIndex (level_of level0))]))
        \<or> (loop_L (level_of level0) ?toks (new_conn hm mem) = flate_branch (level_of level0) (new_conn hm mem)
           \<and> hdr (outcome (flate_branch (level_of level0) (new_conn hm mem))) ''Content-Encoding''
               = Some [''deflate'']
           \<and> (level0 = 0 \<longrightarrow> panic_of ?res \<noteq> None)
           \<and> (level0 \<noteq> 0 \<longrightarrow>
                hooks (outcome (flate_branch (level_of level0) (new_conn hm mem))) = Some Deflate
                \<and> codec_sink (outcome (flate_branch (level_of level0) (new_conn hm mem))) = Some Writer
                \<and> panic_of ?res = None
                \<and> hooks (outcome ?res) = Some Deflate
                \<and> acquired (events (outcome ?res)) = [(Deflate, flatePoolIndex (level_of level0))]))"
  proof -
    assume ?ex
    then obtain tok where f: "find supported ?toks = Some tok"
      using sup find_supported_None[of ?toks] by auto
    show ?thesis
    proof (cases "TrimSpace tok = gzipa")
      case True
      note g = gzip_selected[OF f True]
      from g(1)[where ?level0.0 = level0 and hm = hm and mem = mem]
        g(2)[where ?level0.0 = level0 and hm = hm and mem = mem]
        g(3)[where ?level0.0 = level0 and hm = hm and mem = mem and D = D and h = h]
        g(4)[where ?level0.0 = level0 and hm = hm and mem = mem and D = D and h = h]
      show ?thesis by blast
    next
      case False
      note g = flate_selected[OF f False]
      from g(1)[where ?level0.0 = level0 and hm = hm and mem = mem]
        g(2)[where ?level0.0 = level0 and hm = hm and mem = mem]
        g(3)[where ?level0.0 = level0 and hm = hm and mem = mem and D = D and h = h]
        g(4)[where ?level0.0 = level0 and hm = hm and mem = mem and D = D and h = h]
      show ?thesis by blast
    qed
  qed
  have iff: "?ex \<longleftrightarrow> hooks (outcome ?res) \<noteq> None \<or> panic_of ?res \<noteq> None"
  proof
    assume ?ex
    from some[OF this] show "hooks (outcome ?res) \<noteq> None \<or> panic_of ?res \<noteq> None"
      by (cases "level0 = 0") auto
  next
    assume a: "hooks (outcome ?res) \<noteq> None \<or> panic_of ?res \<noteq> None"
    show ?ex
    proof (rule ccontr)
      assume "\<not> ?ex"
      from none[OF this] a plain(1) show False by simp
    qed
  qed
  from iff some none empty plain show ?thesis by blast
qed

theorem selection_iff_token_of_first_value_witness:
  "Header_Get (req_Header (accepting '''')) ''Accept-Encoding'' = ''''
   \<and> CompressHandlerLevel sniff_plain [Write ''Gorilla!''] 9 (accepting '''')
        (new_conn [''Content-Length'' \<mapsto> [''8'']] [])
       = Inr (fold direct_call [Write ''Gorilla!''] (new_conn [''Content-Length'' \<mapsto> [''8'']] []))
   \<and> hdr (fold direct_call [Write ''Gorilla!''] (new_conn [''Content-Length'' \<mapsto> [''8'']] []))
        ''Content-Encoding'' = None
   \<and> written (raw (fold direct_call [Write ''Gorilla!''] (new_conn [''Content-Length'' \<mapsto> [''8'']] [])))
       = [''Gorilla!'']
   \<and> (\<exists>tok\<in>set (Split (Header_Get (req_Header (accepting ''br, gzip '')) ''Accept-Encoding'') CHR '','').
         TrimSpace tok = ''gzip'' \<or> TrimSpace tok = ''deflate'')
   \<and> (9::int) \<noteq> 0
   \<and> hooks (outcome (CompressHandlerLevel sniff_plain [Write ''Gorilla!''] 9 (accepting ''br, gzip '')
        (new_conn Map.empty []))) = Some Gzip
   \<and> panic_of (CompressHandlerLevel sniff_plain [Write ''Gorilla!''] 9 (accepting ''br, gzip '')
        (new_conn Map.empty [])) = None
   \<and> acquired (events (outcome (CompressHandlerLevel sniff_plain [Write ''Gorilla!''] 9
        (accepting ''br, gzip '') (new_conn Map.empty [])))) = [(Gzip, 8)]
   \<and> hdr (outcome (loop_L (level_of 9)
        (Split (Header_Get (req_Header (accepting ''br, gzip '')) ''Accept-Encoding'') CHR '','')
        (new_conn Map.empty []))) ''Content-Encoding'' = Some [''gzip'']
   \<and> \<not> (\<exists>tok\<in>set (Split (Header_Get (req_Header (accepting ''GZIP'')) ''Accept-Encoding'') CHR '','').
         TrimSpace tok = ''gzip'' \<or> TrimSpace tok = ''deflate'')
   \<and> CompressHandlerLevel sniff_plain [Write ''Gorilla!''] 9 (accepting ''GZIP'') (new_conn Map.empty [])
       = Inr (fold direct_call [Write ''Gorilla!''] (new_conn Map.empty []))"
proof -
  have a: "Header_Get (req_Header (accepting v)) ''Accept-Encoding'' = v" for v
    by (simp add: accepting_def Header_Get_def)
  have z: "Header_Get (req_Header (accepting [])) ''Accept-Encoding'' = []"
    by (rule a)
  have b: "\<exists>tok\<in>set (Split (Header_Get (req_Header (accepting ''br, gzip '')) ''Accept-Encoding'') CHR '','').
      TrimSpace tok = ''gzip'' \<or> TrimSpace tok = ''deflate''"
    unfolding a by (simp add: trim_defs)
  have c: "\<not> (\<exists>tok\<in>set (Split (Header_Get (req_Header (accepting ''GZIP'')) ''Accept-Encoding'') CHR '','').
      TrimSpace tok = ''gzip'' \<or> TrimSpace tok = ''deflate'')"
    unfolding a by (simp add: trim_defs)
  have e: "hdr (outcome (loop_L (level_of 9)
        (Split (Header_Get (req_Header (accepting ''br, gzip '')) ''Accept-Encoding'') CHR '','')
        (new_conn Map.empty []))) ''Content-Encoding'' = Some [''gzip'']"
    unfolding a by (simp add: trim_defs branch_defs header_defs new_conn_def level_of_def)
  have i: "gzipPoolIndex (level_of 9) = 8"
    by (simp add: gzipPoolIndex_def level_of_def level_consts)
  note T1 = selection_iff_token_of_first_value[where D = sniff_plain and h = "[Write ''Gorilla!'']"
      and ?level0.0 = 9 and r = "accepting ''''" and hm = "[''Content-Length'' \<mapsto> [''8'']]"
      and mem = "[]"]
  note T2 = selection_iff_token_of_first_value[where D = sniff_plain and h = "[Write ''Gorilla!'']"
      and ?level0.0 = 9 and r = "accepting ''br, gzip ''" and hm = Map.empty and mem = "[]"]
  note T3 = selection_iff_token_of_first_value[where D = sniff_plain and h = "[Write ''Gorilla!'']"
      and ?level0.0 = 9 and r = "accepting ''GZIP''" and hm = Map.empty and mem = "[]"]
  note rest1 = T1[THEN conjunct2, THEN conjunct2, THEN conjunct2]
  have t1: "CompressHandlerLevel sniff_plain [Write ''Gorilla!''] 9 (accepting '''')
        (new_conn [''Content-Length'' \<mapsto> [''8'']] [])
       = Inr (fold direct_call [Write ''Gorilla!''] (new_conn [''Content-Length'' \<mapsto> [''8'']] []))"
    using rest1[THEN conjunct1] z by (rule mp)
  note plain1 = rest1[THEN conjunct2, THEN conjunct2, THEN conjunct2, THEN conjunct2]
  have t2: "hdr (fold direct_call [Write ''Gorilla!''] (new_conn [''Content-Length'' \<mapsto> [''8'']] []))
        ''Content-Encoding'' = None"
    unfolding plain1[THEN conjunct1] by simp
  have t3: "written (raw (fold direct_call [Write ''Gorilla!''] (new_conn [''Content-Length'' \<mapsto> [''8'']] [])))
       = [''Gorilla!'']"
    unfolding plain1[THEN conjunct2] by simp
  from T2[THEN conjunct2, THEN conjunct1] b
  have d: "(loop_L (level_of 9) (Split (Header_Get (req_Header (accepting ''br, gzip '')) ''Accept-Encoding'') CHR '','')
             (new_conn Map.empty []) = gzip_branch (level_of 9) (new_conn Map.empty [])
           \<and> hdr (outcome (gzip_branch (level_of 9) (new_conn Map.empty []))) ''Content-Encoding''
               = Some [''gzip'']
           \<and> ((9::int) \<noteq> 0 \<longrightarrow>
                hooks (outcome (gzip_branch (level_of 9) (new_conn Map.empty []))) = Some Gzip
                \<and> codec_sink (outcome (gzip_branch (level_of 9) (new_conn Map.empty []))) = Some Writer
                \<and> panic_of (CompressHandlerLevel sniff_plain [Write ''Gorilla!''] 9
                     (accepting ''br, gzip '') (new_conn Map.empty [])) = None
                \<and> hooks (outcome (CompressHandlerLevel sniff_plain [Write ''Gorilla!''] 9
                     (accepting ''br, gzip '') (new_conn Map.empty []))) = Some Gzip
                \<and> acquired (events (outcome (CompressHandlerLevel sniff_plain [Write ''Gorilla!''] 9
                     (accepting ''br, gzip '') (new_conn Map.empty []))))
                    = [(Gzip, gzipPoolIndex (level_of 9))]))
        \<or> (loop_L (level_of 9) (Split (Header_Get (req_Header (accepting ''br, gzip '')) ''Accept-Encoding'') CHR '','')
             (new_conn Map.empty []) = flate_branch (level_of 9) (new_conn Map.empty [])
           \<and> hdr (outcome (flate_branch (level_of 9) (new_conn Map.empty []))) ''Content-Encoding''
               = Some [''deflate'']
           \<and> ((9::int) \<noteq> 0 \<longrightarrow>
                hooks (outcome (flate_branch (level_of 9) (new_conn Map.empty []))) = Some Deflate
                \<and> codec_sink (outcome (flate_branch (level_of 9) (new_conn Map.empty []))) = Some Writer
                \<and> panic_of (CompressHandlerLevel sniff_plain [Write ''Gorilla!''] 9
                     (accepting ''br, gzip '') (new_conn Map.empty [])) = None
                \<and> hooks (outcome (CompressHandlerLevel sniff_plain [Write ''Gorilla!''] 9
                     (accepting ''br, gzip '') (new_conn Map.empty []))) = Some Deflate
                \<and> acquired (events (outcome (CompressHandlerLevel sniff_plain [Write ''Gorilla!''] 9
                     (accepting ''br, gzip '') (new_conn Map.empty []))))
                    = [(Deflate, flatePoolIndex (level_of 9))]))"
    by (rule mp)
  have 2: "hooks (outcome (CompressHandlerLevel sniff_plain [Write ''Gorilla!''] 9 (accepting ''br, gzip '')
        (new_conn Map.empty []))) = Some Gzip
   \<and> panic_of (CompressHandlerLevel sniff_plain [Write ''Gorilla!''] 9 (accepting ''br, gzip '')
        (new_conn Map.empty [])) = None
   \<and> acquired (events (outcome (CompressHandlerLevel sniff_plain [Write ''Gorilla!''] 9
        (accepting ''br, gzip '') (new_conn Map.empty [])))) = [(Gzip, 8)]"
    using d
  proof (elim disjE conjE)
    assume "(9::int) \<noteq> 0 \<longrightarrow>
                hooks (outcome (gzip_branch (level_of 9) (new_conn Map.empty []))) = Some Gzip
                \<and> codec_sink (outcome (gzip_branch (level_of 9) (new_conn Map.empty []))) = Some Writer
                \<and> panic_of (CompressHandlerLevel sniff_plain [Write ''Gorilla!''] 9
                     (accepting ''br, gzip '') (new_conn Map.empty [])) = None
                \<and> hooks (outcome (CompressHandlerLevel sniff_plain [Write ''Gorilla!''] 9
                     (accepting ''br, gzip '') (new_conn Map.empty []))) = Some Gzip
                \<and> acquired (events (outcome (CompressHandlerLevel sniff_plain [Write ''Gorilla!''] 9
                     (accepting ''br, gzip '') (new_conn Map.empty []))))
                    = [(Gzip, gzipPoolIndex (level_of 9))]"
    then show ?thesis unfolding i by simp
  next
    assume l: "loop_L (level_of 9) (Split (Header_Get (req_Header (accepting ''br, gzip '')) ''Accept-Encoding'') CHR '','')
             (new_conn Map.empty []) = flate_branch (level_of 9) (new_conn Map.empty [])"
      and h: "hdr (outcome (flate_branch (level_of 9) (new_conn Map.empty []))) ''Content-Encoding''
               = Some [''deflate'']"
    from e[unfolded l] h show ?thesis by simp
  qed
  have 3: "CompressHandlerLevel sniff_plain [Write ''Gorilla!''] 9 (accepting ''GZIP'') (new_conn Map.empty [])
       = Inr (fold direct_call [Write ''Gorilla!''] (new_conn Map.empty []))"
    using T3[THEN conjunct2, THEN conjunct2, THEN conjunct1] c by (rule mp)
  have n: "(9::int) \<noteq> 0" by simp
  show ?thesis
    by (intro conjI z t1 t2 t3 b n 2[THEN conjunct1] 2[THEN conjunct2, THEN conjunct1]
        2[THEN conjunct2, THEN conjunct2] e c 3)
qed

text \<open>
  C4 as the specification words it fails: a request carries \<^verbatim>\<open>Accept-Encoding\<close> twice,
  first \<^verbatim>\<open>br\<close>, then \<^verbatim>\<open>gzip\<close>. The token \<^verbatim>\<open>gzip\<close> is in the header, yet no encoding is
  selected: the handler runs on the original writer and \<^verbatim>\<open>Content-Encoding\<close> stays unset.
\<close>

theorem second_header_value_not_examined:
  "req_Header (accepting_values [''br'', ''gzip'']) ''Accept-Encoding'' = Some [''br'', ''gzip'']
   \<and> Split ''gzip'' CHR '','' = [''gzip'']
   \<and> TrimSpace ''gzip'' = ''gzip''
   \<and> CompressHandlerLevel sniff_plain [Write ''Gorilla!''] 9 (accepting_values [''br'', ''gzip''])
        (new_conn Map.empty [])
       = Inr (fold direct_call [Write ''Gorilla!''] (new_conn Map.empty []))
   \<and> hooks (outcome (CompressHandlerLevel sniff_plain [Write ''Gorilla!''] 9
        (accepting_values [''br'', ''gzip'']) (new_conn Map.empty []))) = None
   \<and> codec_sink (outcome (CompressHandlerLevel sniff_plain [Write ''Gorilla!''] 9
        (accepting_values [''br'', ''gzip'']) (new_conn Map.empty []))) = None
   \<and> hdr (outcome (CompressHandlerLevel sniff_plain [Write ''Gorilla!''] 9
        (accepting_values [''br'', ''gzip'']) (new_conn Map.empty []))) ''Content-Encoding'' = None
   \<and> written (raw (outcome (CompressHandlerLevel sniff_plain [Write ''Gorilla!''] 9
        (accepting_values [''br'', ''gzip'']) (new_conn Map.empty [])))) = [''Gorilla!'']"
  by (simp add: CompressHandlerLevel_def accepting_values_def new_conn_def header_defs trim_defs
      gzipa_def deflate_def do_call_def level_consts)

section \<open>Level normalisation\<close>

text \<open>
  C5. The check at the top of the function rewrites levels below \<open>-1\<close> and above \<open>9\<close> only.
  Level \<open>0\<close> (\<^verbatim>\<open>gzip.NoCompression\<close>) is outside \<open>{-1} \<union> {1..9}\<close>, is not rewritten, and
  indexes either pool array at \<open>-1\<close>: the request panics, for gzip and for deflate. Level
  \<open>10\<close> is rewritten and takes the codec of the default slot \<open>9\<close>.
\<close>

theorem no_compression_level_panics:
  "gzip_NoCompression = 0
   \<and> panic_of (CompressHandlerLevel sniff_plain [Write ''x''] gzip_NoCompression
        (accepting ''gzip'') (new_conn Map.empty [])) = Some (IndexOutOfRange (- 1))
   \<and> panic_of (CompressHandlerLevel sniff_plain [Write ''x''] gzip_NoCompression
        (accepting ''deflate'') (new_conn Map.empty [])) = Some (IndexOutOfRange (- 1))
   \<and> panic_of (CompressHandlerLevel sniff_plain [Write ''x''] 10
        (accepting ''gzip'') (new_conn Map.empty [])) = None
   \<and> acquired (events (outcome (CompressHandlerLevel sniff_plain [Write ''x''] 10
        (accepting ''gzip'') (new_conn Map.empty [])))) = [(Gzip, 9)]"
  by (simp add: CompressHandlerLevel_def accepting_def new_conn_def branch_defs header_defs
      trim_defs do_call_def hook_defs sniff_plain_def)

lemma other_levels_do_not_panic:
  "level0 \<noteq> 0 \<Longrightarrow> panic_of (CompressHandlerLevel D h level0 r (new_conn hm mem)) = None"
proof -
  assume l: "level0 \<noteq> 0"
  have g: "\<not> (gzipPoolIndex (level_of level0) < 0 \<or> gzipWriterPools_len \<le> gzipPoolIndex (level_of level0))"
    and f: "\<not> (flatePoolIndex (level_of level0) < 0 \<or> flateWriterPools_len \<le> flatePoolIndex (level_of level0))"
    using l index_in_range[of level0] by blast+
  show ?thesis
    unfolding CompressHandlerLevel_def Let_def loop_L_find level_of_def[symmetric]
    using g f by (simp add: gzip_branch_new flate_branch_new split: option.splits)
qed

section \<open>At most one branch per request\<close>

text \<open>
  C10. Whatever the request, the level and the handler: the middleware takes at most one
  codec from a pool and puts back exactly what it took, and it sets \<^verbatim>\<open>Content-Encoding\<close>
  at most once, to \<^verbatim>\<open>gzip\<close> or to \<^verbatim>\<open>deflate\<close>. The loop stops at a supported field: what
  follows it changes nothing.
\<close>

theorem at_most_one_branch:
  "length (acquired (events (outcome (CompressHandlerLevel D h level0 r (new_conn hm mem))))) \<le> 1
   \<and> released (events (outcome (CompressHandlerLevel D h level0 r (new_conn hm mem))))
       = acquired (events (outcome (CompressHandlerLevel D h level0 r (new_conn hm mem))))
   \<and> encodings_set (events (outcome (CompressHandlerLevel D h level0 r (new_conn hm mem))))
       \<in> {[], [gzipa], [deflate]}
   \<and> (TrimSpace tok = gzipa \<or> TrimSpace tok = deflate \<longrightarrow>
        loop_L level (pre @ tok # post) c = loop_L level (pre @ [tok]) c)"
  using loop_L_stops[of tok level pre post c]
  by (simp add: events_new supported_def split: option.splits)

theorem at_most_one_branch_witness:
  "(TrimSpace ''gzip'' = gzipa \<or> TrimSpace ''gzip'' = deflate)
   \<and> loop_L 9 ([''br''] @ ''gzip'' # ['' deflate'']) (new_conn Map.empty [])
       = loop_L 9 ([''br''] @ [''gzip'']) (new_conn Map.empty [])
   \<and> events (outcome (CompressHandlerLevel sniff_plain [] 9 (accepting ''br,gzip, deflate'')
        (new_conn Map.empty [])))
       = [SetContentEncoding ''gzip'', PoolGet Gzip 8, CodecClose Gzip, PoolPut Gzip 8]"
proof -
  have t: "TrimSpace ''gzip'' = gzipa"
    by (simp add: trim_defs gzipa_def)
  have e: "events (outcome (CompressHandlerLevel sniff_plain [] 9 (accepting ''br,gzip, deflate'')
        (new_conn Map.empty [])))
       = [SetContentEncoding ''gzip'', PoolGet Gzip 8, CodecClose Gzip, PoolPut Gzip 8]"
    by (simp add: CompressHandlerLevel_def accepting_def new_conn_def branch_defs header_defs trim_defs)
  show ?thesis
    using at_most_one_branch[of sniff_plain "[]" 9 "accepting ''br,gzip, deflate''" Map.empty "[]"
        "''gzip''" 9 "[''br'']" "['' deflate'']" "new_conn Map.empty []"] t e
    by simp
qed

section \<open>The Push hook and the push options\<close>

lemma do_call_Push:
  "hooks c = Some Deflate \<Longrightarrow>
     do_call D (Push target opts) c = c\<lparr>heap := fst (Push_body (heap c) opts)\<rparr>"
  by (simp add: do_call_def Push_hook_def)

lemma Push_body_Some:
  "p < length mem \<Longrightarrow>
     fst (Push_body mem (Some p)) =
       (case Header (mem ! p) of
          None \<Rightarrow> mem[p := (mem ! p)\<lparr>Header := Some gzipOnly\<rparr>]
        | Some h \<Rightarrow> if Header_Get h ''Accept-Encoding'' = ''''
                    then mem[p := (mem ! p)\<lparr>Header := Some (Header_Add h ''Accept-Encoding'' ''gzip'')\<rparr>]
                    else mem)"
  by (simp add: Push_body_def split: option.splits)

lemma Push_body_length: "length (fst (Push_body mem (Some p))) = length mem"
  by (simp add: Push_body_def split: option.splits)

lemma Push_body_others:
  "q \<noteq> p \<Longrightarrow> fst (Push_body mem (Some p)) ! q = mem ! q"
  by (simp add: Push_body_def split: option.splits)

lemma Push_body_Method:
  "p < length mem \<Longrightarrow> Method (fst (Push_body mem (Some p)) ! p) = Method (mem ! p)"
  by (simp add: Push_body_Some split: option.splits)

lemma Push_body_absent:
  assumes "p < length mem"
    and "Header (mem ! p) = None \<or> (\<exists>h. Header (mem ! p) = Some h \<and> h ''Accept-Encoding'' = None)"
  shows "\<exists>h'. Header (fst (Push_body mem (Some p)) ! p) = Some h'
            \<and> h' ''Accept-Encoding'' = Some [''gzip'']"
  using assms by (auto simp: Push_body_Some gzipOnly_def header_defs split: option.splits)

lemma Push_body_present:
  assumes "Header (mem ! p) = Some h" "Header_Get h ''Accept-Encoding'' \<noteq> ''''"
  shows "fst (Push_body mem (Some p)) = mem"
  using assms by (simp add: Push_body_def)

lemma Push_body_keeps:
  assumes "p < length mem" "Header (mem ! p) = Some h"
  shows "\<exists>h'. Header (fst (Push_body mem (Some p)) ! p) = Some h'
            \<and> (\<forall>k. k \<noteq> ''Accept-Encoding'' \<longrightarrow> h' k = h k)
            \<and> (\<forall>vs. h ''Accept-Encoding'' = Some vs \<longrightarrow>
                  h' ''Accept-Encoding'' = Some vs \<or> h' ''Accept-Encoding'' = Some (vs @ [''gzip'']))"
  using assms by (auto simp: Push_body_Some header_defs)

lemma Push_body_changes:
  assumes "fst (Push_body mem (Some p)) \<noteq> mem"
  shows "case Header (mem ! p) of None \<Rightarrow> True | Some h \<Rightarrow> Header_Get h ''Accept-Encoding'' = ''''"
  using assms by (auto simp: Push_body_def split: option.splits if_splits)

lemma Push_body_nil:
  "snd (Push_body mem None) = Some (length mem)"
  "Header (fst (Push_body mem None) ! length mem) = Some [''Accept-Encoding'' \<mapsto> [''gzip'']]"
  "take (length mem) (fst (Push_body mem None)) = mem"
  by (simp_all add: Push_body_def gzipOnly_def)

text \<open>
  C8. A push through the deflate wrapper with options at address \<open>p\<close>: options without an
  \<^verbatim>\<open>Accept-Encoding\<close> entry (a nil header map, or a map without the key) end with exactly
  the one value \<^verbatim>\<open>gzip\<close> there; options whose \<^verbatim>\<open>Accept-Encoding\<close> is non-empty are left as
  they are. Nothing the caller supplied is overridden: every other key keeps its values,
  existing \<^verbatim>\<open>Accept-Encoding\<close> values stay in place, the method and all other options in
  the store are untouched, and the store changes only when \<^verbatim>\<open>Header.Get\<close> finds no
  \<^verbatim>\<open>Accept-Encoding\<close> value. With nil options the hook's own variable ends at a new
  object holding the single entry.
\<close>

theorem push_fills_accept_encoding:
  assumes "hooks c = Some Deflate" and "p < length (heap c)"
  shows "((Header (heap c ! p) = None
            \<or> (\<exists>h. Header (heap c ! p) = Some h \<and> h ''Accept-Encoding'' = None)) \<longrightarrow>
          (\<exists>h'. Header (heap (do_call D (Push target (Some p)) c) ! p) = Some h'
                \<and> h' ''Accept-Encoding'' = Some [''gzip'']))
       \<and> ((\<exists>h. Header (heap c ! p) = Some h \<and> Header_Get h ''Accept-Encoding'' \<noteq> '''') \<longrightarrow>
            heap (do_call D (Push target (Some p)) c) = heap c)
       \<and> (\<forall>h. Header (heap c ! p) = Some h \<longrightarrow>
            (\<exists>h'. Header (heap (do_call D (Push target (Some p)) c) ! p) = Some h'
               \<and> (\<forall>k. k \<noteq> ''Accept-Encoding'' \<longrightarrow> h' k = h k)
               \<and> (\<forall>vs. h ''Accept-Encoding'' = Some vs \<longrightarrow>
                     h' ''Accept-Encoding'' = Some vs
                     \<or> h' ''Accept-Encoding'' = Some (vs @ [''gzip'']))))
       \<and> (heap (do_call D (Push target (Some p)) c) \<noteq> heap c \<longrightarrow>
            (case Header (heap c ! p) of
               None \<Rightarrow> True
             | Some h \<Rightarrow> Header_Get h ''Accept-Encoding'' = ''''))
       \<and> Method (heap (do_call D (Push target (Some p)) c) ! p) = Method (heap c ! p)
       \<and> length (heap (do_call D (Push target (Some p)) c)) = length (heap c)
       \<and> (\<forall>q. q \<noteq> p \<longrightarrow> heap (do_call D (Push target (Some p)) c) ! q = heap c ! q)
       \<and> snd (Push_body (heap c) None) = Some (length (heap c))
       \<and> Header (heap (do_call D (Push target None) c) ! length (heap c))
           = Some [''Accept-Encoding'' \<mapsto> [''gzip'']]"
proof -
  have a: "heap (do_call D (Push target opts) c) = fst (Push_body (heap c) opts)" for opts
    by (simp add: do_call_Push[OF assms(1)])
  show ?thesis
    unfolding a
    using Push_body_absent[OF assms(2)] Push_body_present[of "heap c" p]
      Push_body_keeps[OF assms(2)] Push_body_changes[of "heap c" p]
      Push_body_Method[OF assms(2)] Push_body_length[of "heap c" p]
      Push_body_others[of _ p "heap c"] Push_body_nil[of "heap c"]
    by blast
qed

lemma flate_conn_heap: "heap (flate_conn hm mem) = mem"
  by (simp add: example_defs branch_defs)

theorem push_fills_accept_encoding_witness:
  "hooks (flate_conn Map.empty push_store) = Some Deflate
   \<and> 0 < length (heap (flate_conn Map.empty push_store))
   \<and> 1 < length (heap (flate_conn Map.empty push_store))
   \<and> Header (heap (flate_conn Map.empty push_store) ! 0) = Some [''User-Agent'' \<mapsto> [''Mozilla/5.0'']]
   \<and> [''User-Agent'' \<mapsto> [''Mozilla/5.0'']] ''Accept-Encoding'' = None
   \<and> Header (heap (do_call sniff_plain (Push ''/style.css'' (Some 0))
        (flate_conn Map.empty push_store)) ! 0)
       = Some [''User-Agent'' \<mapsto> [''Mozilla/5.0''], ''Accept-Encoding'' \<mapsto> [''gzip'']]
   \<and> Header_Get [''User-Agent'' \<mapsto> [''Mozilla/5.0''], ''Accept-Encoding'' \<mapsto> [''deflate'']]
        ''Accept-Encoding'' \<noteq> ''''
   \<and> heap (do_call sniff_plain (Push ''/style.css'' (Some 1)) (flate_conn Map.empty push_store))
       = heap (flate_conn Map.empty push_store)
   \<and> heap (do_call sniff_plain (Push ''/style.css'' (Some 0)) (flate_conn Map.empty push_store)) ! 1
       = heap (flate_conn Map.empty push_store) ! 1"
proof -
  have k: "hooks (flate_conn Map.empty push_store) = Some Deflate"
    by (rule flate_conn_hooks)
  have l: "0 < length (heap (flate_conn Map.empty push_store))"
    "1 < length (heap (flate_conn Map.empty push_store))"
    by (simp_all add: flate_conn_heap push_store_def)
  have h0: "Header (heap (flate_conn Map.empty push_store) ! 0) = Some [''User-Agent'' \<mapsto> [''Mozilla/5.0'']]"
    and h1: "Header (heap (flate_conn Map.empty push_store) ! 1)
       = Some [''User-Agent'' \<mapsto> [''Mozilla/5.0''], ''Accept-Encoding'' \<mapsto> [''deflate'']]"
    by (simp_all add: flate_conn_heap push_store_def)
  have g: "Header_Get [''User-Agent'' \<mapsto> [''Mozilla/5.0''], ''Accept-Encoding'' \<mapsto> [''deflate'']]
        ''Accept-Encoding'' \<noteq> ''''"
    by (simp add: Header_Get_def)
  have e: "Header (heap (do_call sniff_plain (Push ''/style.css'' (Some 0))
        (flate_conn Map.empty push_store)) ! 0)
       = Some [''User-Agent'' \<mapsto> [''Mozilla/5.0''], ''Accept-Encoding'' \<mapsto> [''gzip'']]"
    unfolding do_call_Push[OF k] flate_conn_heap
    by (simp add: push_store_def Push_body_def header_defs)
  from push_fills_accept_encoding[OF k l(2), of sniff_plain "''/style.css''"] h1 g
  have u: "heap (do_call sniff_plain (Push ''/style.css'' (Some 1)) (flate_conn Map.empty push_store))
       = heap (flate_conn Map.empty push_store)"
    by blast
  from push_fills_accept_encoding[OF k l(1), of sniff_plain "''/style.css''"]
  have o: "heap (do_call sniff_plain (Push ''/style.css'' (Some 0)) (flate_conn Map.empty push_store)) ! 1
       = heap (flate_conn Map.empty push_store) ! 1"
    by simp
  show ?thesis
    using k l h0 g e u o by simp
qed

section \<open>The Push hook issues no push\<close>

lemma do_call_pushed:
  "hooks c = Some Deflate \<Longrightarrow> pushed (raw (do_call D cl c)) = pushed (raw c)"
  by (cases cl) (simp_all add: do_call_def hook_defs pushed_append)

lemma ServeHTTP_pushed:
  "hooks c = Some Deflate \<Longrightarrow> pushed (raw (ServeHTTP D h c)) = pushed (raw c)"
  by (induction h arbitrary: c) (simp_all add: do_call_pushed do_call_hooks)

lemma heap_reset: "c\<lparr>heap := heap c\<rparr> = c"
  by simp

text \<open>
  C9. On the deflate wrapper every \<^verbatim>\<open>Push\<close> returns a nil error and the original writer
  receives no push call, during one call and over a whole handler run. With nil options
  the object the hook builds lies outside the store the caller can address, and nothing
  else changes: the call leaves no trace the caller could observe.
\<close>

theorem push_never_issued:
  assumes "hooks c = Some Deflate"
  shows "fst (Push_hook target opts c) = None
       \<and> do_call D (Push target opts) c = snd (Push_hook target opts c)
       \<and> raw (do_call D (Push target opts) c) = raw c
       \<and> pushed (raw (ServeHTTP D h c)) = pushed (raw c)
       \<and> take (length (heap c)) (heap (do_call D (Push target None) c)) = heap c
       \<and> (do_call D (Push target None) c)\<lparr>heap := heap c\<rparr> = c"
  using assms ServeHTTP_pushed[OF assms, of D h] Push_body_nil(3)[of "heap c"]
  by (simp add: do_call_def Push_hook_def)

theorem push_never_issued_witness:
  "hooks (flate_conn Map.empty push_store) = Some Deflate
   \<and> fst (Push_hook ''/style.css'' (Some 0) (flate_conn Map.empty push_store)) = None
   \<and> pushed (raw (ServeHTTP sniff_plain
        [Push ''/style.css'' (Some 0), Write ''abc'', Push ''/app.js'' None]
        (flate_conn Map.empty push_store))) = []
   \<and> heap (do_call sniff_plain (Push ''/app.js'' None) (flate_conn Map.empty push_store))
       = push_store @ [\<lparr>Method = '''', Header = Some [''Accept-Encoding'' \<mapsto> [''gzip'']]\<rparr>]
   \<and> take (length (heap (flate_conn Map.empty push_store)))
        (heap (do_call sniff_plain (Push ''/app.js'' None) (flate_conn Map.empty push_store)))
       = push_store
   \<and> pushed (raw (ServeHTTP sniff_plain [Push ''/style.css'' (Some 0)] (gzip_conn Map.empty)))
       = [(''/style.css'', Some 0)]"
proof -
  have k: "hooks (flate_conn Map.empty push_store) = Some Deflate"
    by (rule flate_conn_hooks)
  have r: "raw (flate_conn Map.empty push_store) = []"
    by (simp add: example_defs branch_defs)
  have n: "heap (do_call sniff_plain (Push ''/app.js'' None) (flate_conn Map.empty push_store))
       = push_store @ [\<lparr>Method = '''', Header = Some [''Accept-Encoding'' \<mapsto> [''gzip'']]\<rparr>]"
    unfolding do_call_Push[OF k] flate_conn_heap
    by (simp add: Push_body_def gzipOnly_def)
  have g: "pushed (raw (ServeHTTP sniff_plain [Push ''/style.css'' (Some 0)] (gzip_conn Map.empty)))
       = [(''/style.css'', Some 0)]"
    by (simp add: do_call_def example_defs branch_defs)
  have a: "fst (Push_hook ''/style.css'' (Some 0) (flate_conn Map.empty push_store)) = None"
    and b: "pushed (raw (ServeHTTP sniff_plain
        [Push ''/style.css'' (Some 0), Write ''abc'', Push ''/app.js'' None]
        (flate_conn Map.empty push_store))) = pushed (raw (flate_conn Map.empty push_store))"
    using push_never_issued[OF k, where target = "''/style.css''" and opts = "Some 0"
        and D = sniff_plain
        and h = "[Push ''/style.css'' (Some 0), Write ''abc'', Push ''/app.js'' None]"]
    by blast+
  have c: "take (length (heap (flate_conn Map.empty push_store)))
        (heap (do_call sniff_plain (Push ''/app.js'' None) (flate_conn Map.empty push_store)))
       = heap (flate_conn Map.empty push_store)"
    using push_never_issued[OF k, where target = "''/app.js''" and D = sniff_plain]
    by blast
  show ?thesis
    unfolding b r
    using k a c n g by (simp add: flate_conn_heap)
qed

end
